theory Spec2Isabelle
  imports Main
begin

section \<open>Python values used by \<open>setup.py\<close>\<close>

text \<open>
  The build script \<open>SDK/FAI_python/x64/setup.py\<close> is embedded function by function.
  A Python \<open>str\<close> is a \<open>string\<close>; a \<open>char\<close> stands for a code point below 256.
  An exception that leaves a function is a value of \<open>py_error\<close>; a function that can
  raise returns \<open>py_error + 'a\<close>. Output of \<open>print\<close> and of the \<open>logging\<close> calls is
  not part of the model.
\<close>

datatype py_error =
    KeyError
  | ValueError
  | RuntimeError
  | EnvironmentError
  | CalledProcessError
  | FileNotFoundError
  | FileExistsError
  | NotADirectoryError
  | IsADirectoryError
  | OtherOSError
  | SameFileError
  | AttributeError
  | NameError
  | UnicodeDecodeError

text \<open>
  What \<open>subprocess.check_output(argv, universal_newlines=True)\<close> gives back: the
  decoded standard output, or one of the exceptions it raises: \<open>CalledProcessError\<close> for
  a non-zero exit status, \<open>FileNotFoundError\<close> when the executable is missing, any other
  \<open>OSError\<close>, and \<open>UnicodeDecodeError\<close> (a \<open>ValueError\<close>, not an \<open>OSError\<close>) when the
  bytes that the program wrote are not text in the encoding of the locale.
\<close>

datatype proc_result =
    Output string
  | ProcCalledProcessError
  | ProcFileNotFoundError
  | ProcOtherOSError
  | ProcUnicodeDecodeError

subsection \<open>\<open>str.strip()\<close>, \<open>"%d" % n\<close>, \<open>int(s)\<close>\<close>

text \<open>The code points below 256 for which \<open>str.isspace()\<close> holds.\<close>

definition whitespace :: "char list" where
  "whitespace = [CHR 0x09, CHR 0x0A, CHR 0x0B, CHR 0x0C, CHR 0x0D, CHR 0x1C, CHR 0x1D,
                 CHR 0x1E, CHR 0x1F, CHR 0x20, CHR 0x85, CHR 0xA0]"

definition lstrip :: "string \<Rightarrow> string" where
  "lstrip s = dropWhile (\<lambda>c. c \<in> set whitespace) s"

definition strip :: "string \<Rightarrow> string" where
  "strip s = rev (lstrip (rev (lstrip s)))"

definition digit_chars :: "char list" where
  "digit_chars = ''0123456789''"

fun dec :: "nat \<Rightarrow> string" where
  "dec n = (if n < 10 then [digit_chars ! n] else dec (n div 10) @ [digit_chars ! (n mod 10)])"

declare dec.simps [simp del]

text \<open>
  \<open>int(s)\<close> on a string of ASCII digits; the empty string raises \<open>ValueError\<close>, and so
  does any other character (the callers below only pass digits and the empty string).
  \<open>max_str_digits\<close> is \<open>sys.get_int_max_str_digits()\<close>: when it is not zero, a string of
  more digits (leading zeros count; the interpreter counts only beyond 640 digits, the
  least limit it admits) raises \<open>ValueError\<close>. It is 4300 unless the interpreter is
  configured otherwise, and 0 stands for an interpreter without the limit.
\<close>

definition digit_value :: "char \<Rightarrow> nat option" where
  "digit_value c = map_of (zip digit_chars [0, 1, 2, 3, 4, 5, 6, 7, 8, 9]) c"

fun int_digits :: "nat \<Rightarrow> string \<Rightarrow> py_error + nat" where
  "int_digits acc [] = Inr acc"
| "int_digits acc (c # cs) =
     (case digit_value c of None \<Rightarrow> Inl ValueError
      | Some d \<Rightarrow> int_digits (10 * acc + d) cs)"

definition py_int :: "nat \<Rightarrow> string \<Rightarrow> py_error + nat" where
  "py_int max_str_digits s =
     (if s = [] then Inl ValueError
      else if 640 < length s \<and> 0 < max_str_digits \<and> max_str_digits < length s
      then Inl ValueError
      else int_digits 0 s)"

section \<open>Regular expressions of the \<open>re\<close> module\<close>

text \<open>
  The patterns of the script use character classes, concatenation, alternation, the greedy
  quantifiers \<open>?\<close>, \<open>*\<close>, \<open>+\<close>, \<open>{2,3}\<close>, capture groups and \<open>$\<close>.
  \<open>rmatch r (s, c)\<close> lists, in the order in which the backtracking matcher of \<open>re\<close> tries
  them, every way of matching \<open>r\<close> at the front of \<open>s\<close>: the rest of the subject and the
  groups captured so far (newest first). A greedy quantifier tries its body before it tries
  to stop. The body of each \<open>*\<close> in the script's patterns is a character class, so an
  iteration always consumes a character; the guard in the \<open>RStar\<close> equation states this.
  \<open>$\<close> matches at the end of the subject and before a newline that ends it.
\<close>

datatype rx =
    REps
  | RCls string
  | RSeq rx rx
  | RAlt rx rx
  | ROpt rx
  | RStar rx
  | RGroup nat rx
  | RDollar

type_synonym caps = "(nat \<times> string) list"
type_synonym mstate = "string \<times> caps"

function rmatch :: "rx \<Rightarrow> mstate \<Rightarrow> mstate list" where
  "rmatch REps st = [st]"
| "rmatch (RCls cs) st =
     (case fst st of [] \<Rightarrow> [] | x # xs \<Rightarrow> if x \<in> set cs then [(xs, snd st)] else [])"
| "rmatch (RSeq a b) st = concat (map (rmatch b) (rmatch a st))"
| "rmatch (RAlt a b) st = rmatch a st @ rmatch b st"
| "rmatch (ROpt a) st = rmatch a st @ [st]"
| "rmatch (RStar a) st =
     concat (map (\<lambda>st'. if length (fst st') < length (fst st) then rmatch (RStar a) st' else [])
                 (rmatch a st)) @ [st]"
| "rmatch (RGroup k a) st =
     map (\<lambda>st'. (fst st', (k, take (length (fst st) - length (fst st')) (fst st)) # snd st'))
         (rmatch a st)"
| "rmatch RDollar st = (if fst st = [] \<or> fst st = [CHR 0x0A] then [st] else [])"
  by pat_completeness auto
termination
  by (relation "measures [\<lambda>(r, st). size r, \<lambda>(r, st). length (fst st)]") auto

declare rmatch.simps(6) [simp del]

definition rx_plus :: "rx \<Rightarrow> rx" where
  "rx_plus r = RSeq r (RStar r)"

definition rx_rep_2_3 :: "rx \<Rightarrow> rx" where
  "rx_rep_2_3 r = RSeq r (RSeq r (ROpt r))"

fun seqs :: "rx list \<Rightarrow> rx" where
  "seqs [] = REps"
| "seqs (r # rs) = RSeq r (seqs rs)"

definition lit :: "string \<Rightarrow> rx" where
  "lit s = seqs (map (\<lambda>c. RCls [c]) s)"

text \<open>The first way of matching, if there is one: what the matcher of \<open>re\<close> reports.\<close>

definition first_result :: "rx \<Rightarrow> mstate \<Rightarrow> mstate option" where
  "first_result r st = (case rmatch r st of [] \<Rightarrow> None | x # _ \<Rightarrow> Some x)"

text \<open>\<open>re.match(r, s)\<close>: the groups of the first match at the start of \<open>s\<close>, or \<open>None\<close>.\<close>

definition re_match :: "rx \<Rightarrow> string \<Rightarrow> caps option" where
  "re_match r s = map_option snd (first_result r (s, []))"

text \<open>\<open>re.search(r, s)\<close>: the first match at the leftmost position that has one.\<close>

fun re_search :: "rx \<Rightarrow> string \<Rightarrow> caps option" where
  "re_search r [] = re_match r []"
| "re_search r (x # xs) =
     (case re_match r (x # xs) of Some m \<Rightarrow> Some m | None \<Rightarrow> re_search r xs)"

text \<open>\<open>m.group(k)\<close>: \<open>None\<close> when group \<open>k\<close> took no part in the match.\<close>

definition group :: "caps \<Rightarrow> nat \<Rightarrow> string option" where
  "group m k = map_of m k"

text \<open>A string is matched as a whole: some way of matching leaves nothing.\<close>

definition full_match :: "rx \<Rightarrow> string \<Rightarrow> bool" where
  "full_match r s = ([] \<in> set (map fst (rmatch r (s, []))))"

text \<open>The characters a pattern can consume, and whether it is free of \<open>$\<close> and of groups.\<close>

fun rx_chars :: "rx \<Rightarrow> char set" where
  "rx_chars REps = {}"
| "rx_chars (RCls cs) = set cs"
| "rx_chars (RSeq a b) = rx_chars a \<union> rx_chars b"
| "rx_chars (RAlt a b) = rx_chars a \<union> rx_chars b"
| "rx_chars (ROpt a) = rx_chars a"
| "rx_chars (RStar a) = rx_chars a"
| "rx_chars (RGroup k a) = rx_chars a"
| "rx_chars RDollar = {}"

fun anchor_free :: "rx \<Rightarrow> bool" where
  "anchor_free REps = True"
| "anchor_free (RCls cs) = True"
| "anchor_free (RSeq a b) = (anchor_free a \<and> anchor_free b)"
| "anchor_free (RAlt a b) = (anchor_free a \<and> anchor_free b)"
| "anchor_free (ROpt a) = anchor_free a"
| "anchor_free (RStar a) = anchor_free a"
| "anchor_free (RGroup k a) = anchor_free a"
| "anchor_free RDollar = False"

fun group_free :: "rx \<Rightarrow> bool" where
  "group_free REps = True"
| "group_free (RCls cs) = True"
| "group_free (RSeq a b) = (group_free a \<and> group_free b)"
| "group_free (RAlt a b) = (group_free a \<and> group_free b)"
| "group_free (ROpt a) = group_free a"
| "group_free (RStar a) = group_free a"
| "group_free (RGroup k a) = False"
| "group_free RDollar = True"

section \<open>The version resolver: \<open>BuildSupport.get_git_version\<close>\<close>

text \<open>Character classes \<open>\d\<close>, \<open>[a-zA-Z0-9]\<close>, \<open>[a-zA-Z0-9\.]\<close>, \<open>[0-9a-f]\<close>.\<close>

definition rx_d :: rx where
  "rx_d = RCls digit_chars"

definition alnum_chars :: "char list" where
  "alnum_chars = ''abcdefghijklmnopqrstuvwxyzABCDEFGHIJKLMNOPQRSTUVWXYZ0123456789''"

definition hex_chars :: "char list" where
  "hex_chars = ''0123456789abcdef''"

text \<open>
  \<^verbatim>\<open>\d+(?:\.\d+){2,3}(?:(?:a|b|rc)\d*)?\<close>: the sub-pattern that both patterns of
  \<open>get_git_version\<close> start with.
\<close>

definition version_core :: rx where
  "version_core =
     seqs [rx_plus rx_d,
           rx_rep_2_3 (RSeq (RCls ''.'') (rx_plus rx_d)),
           ROpt (RSeq (RAlt (RCls ''a'') (RAlt (RCls ''b'') (lit ''rc''))) (RStar rx_d))]"

text \<open>
  \<^verbatim>\<open>^\d+(?:\.\d+){2,3}(?:(?:a|b|rc)\d*)?$\<close>, given to \<open>re.match\<close>, which matches at the
  start of the subject only: the leading \<open>^\<close> of the two patterns adds nothing.
\<close>

definition rx_rel :: rx where
  "rx_rel = RSeq version_core RDollar"

text \<open>\<^verbatim>\<open>(?:(?:\+[a-zA-Z0-9](?:[a-zA-Z0-9\.]*[a-zA-Z0-9]?))?)\<close>\<close>

definition rx_local :: rx where
  "rx_local =
     ROpt (seqs [RCls ''+'', RCls alnum_chars, RStar (RCls (alnum_chars @ ''.'')),
                 ROpt (RCls alnum_chars)])"

text \<open>\<^verbatim>\<open>(?:-(\d+)-g[0-9a-f]+)?\<close>\<close>

definition rx_distance :: rx where
  "rx_distance =
     ROpt (seqs [RCls ''-'', RGroup 2 (rx_plus rx_d), RCls ''-'', RCls ''g'',
                 rx_plus (RCls hex_chars)])"

text \<open>\<^verbatim>\<open>(?:-dirty)?\<close>\<close>

definition rx_dirty :: rx where
  "rx_dirty = ROpt (lit ''-dirty'')"

text \<open>
  The pattern \<open>rx_git_ver\<close>, written with \<open>re.VERBOSE\<close> over several lines; group 1 is
  the base version, group 2 the distance.
\<close>

definition rx_git_ver :: rx where
  "rx_git_ver = seqs [RGroup 1 version_core, rx_local, rx_distance, rx_dirty, RDollar]"

record datetime =
  year :: nat
  month :: nat
  day :: nat
  hour :: nat
  minute :: nat
  second :: nat
  microsecond :: nat

text \<open>
  \<open>(now - midnight).seconds\<close> with \<open>midnight\<close> the start of the day of \<open>now\<close>: the whole
  seconds of the difference.
\<close>

definition todays_seconds :: "datetime \<Rightarrow> nat" where
  "todays_seconds now = hour now * 3600 + minute now * 60 + second now"

text \<open>The \<open>except\<close> branch: \<open>"%d.%d.%d.dev%d" % (now.year, now.month, now.day, todays_seconds)\<close>.\<close>

definition date_version :: "datetime \<Rightarrow> string" where
  "date_version now =
     dec (year now) @ ''.'' @ dec (month now) @ ''.'' @ dec (day now) @ ''.dev''
       @ dec (todays_seconds now)"

text \<open>\<open>"%s" % g\<close> for a group \<open>g\<close>, which is a string or \<open>None\<close>.\<close>

definition pct_s :: "string option \<Rightarrow> string" where
  "pct_s g = (case g of None \<Rightarrow> ''None'' | Some s \<Rightarrow> s)"

text \<open>\<open>"%s" % (g or 0)\<close> for a group \<open>g\<close>: \<open>None\<close> and the empty string are falsy.\<close>

definition group_or_0 :: "string option \<Rightarrow> string" where
  "group_or_0 g = (case g of None \<Rightarrow> ''0'' | Some s \<Rightarrow> if s = [] then ''0'' else s)"

text \<open>
  \<open>get_git_version\<close>, given what \<open>git describe --tags --dirty\<close> produced and the reading
  of the clock. \<open>raise OSError\<close> at the end of the \<open>try\<close> block lands in the \<open>except\<close>
  branch, as \<open>CalledProcessError\<close> and the \<open>OSError\<close>s of the subprocess do. The clause
  \<open>except (OSError, subprocess.CalledProcessError)\<close> does not catch \<open>UnicodeDecodeError\<close>,
  which leaves the function.
\<close>

fun get_git_version :: "proc_result \<Rightarrow> datetime \<Rightarrow> py_error + string" where
  "get_git_version (Output out) now =
     (let git_version = strip out;
          m_rel = re_match rx_rel git_version;
          m_dev = re_match rx_git_ver git_version
      in if m_rel \<noteq> None then Inr git_version
         else (case m_dev of
                 Some m \<Rightarrow> Inr (pct_s (group m 1) @ ''.dev'' @ group_or_0 (group m 2))
               | None \<Rightarrow> Inr (date_version now)))"
| "get_git_version ProcCalledProcessError now = Inr (date_version now)"
| "get_git_version ProcFileNotFoundError now = Inr (date_version now)"
| "get_git_version ProcOtherOSError now = Inr (date_version now)"
| "get_git_version ProcUnicodeDecodeError now = Inl UnicodeDecodeError"

text \<open>
  The two shapes the version resolver tells apart are built from these: a release version
  is a string that \<open>version_core\<close> matches as a whole, a local segment one that
  \<open>rx_local\<close> matches as a whole (the empty string included).
\<close>

definition release_shape :: "string \<Rightarrow> bool" where
  "release_shape s = full_match version_core s"

definition local_shape :: "string \<Rightarrow> bool" where
  "local_shape s = full_match rx_local s"

text \<open>Helpers for reasoning about the matcher: a suffix appended to the subject, groups
  appended to the captures.\<close>

definition add_caps :: "caps \<Rightarrow> mstate \<Rightarrow> mstate" where
  "add_caps d st = (fst st, snd st @ d)"

definition push_suffix :: "string \<Rightarrow> mstate \<Rightarrow> mstate" where
  "push_suffix u st = (fst st @ u, snd st)"

section \<open>The tool locator: \<open>find_swig\<close> and \<open>is_supported_swig_version\<close>\<close>

text \<open>\<open>s.split(sep)\<close> for a one-character separator: the pieces between the separators.\<close>

fun split_on :: "char \<Rightarrow> string \<Rightarrow> string list" where
  "split_on sep [] = [[]]"
| "split_on sep (c # cs) =
     (if c = sep then [] # split_on sep cs
      else (case split_on sep cs of [] \<Rightarrow> [[c]] | w # ws \<Rightarrow> (c # w) # ws))"

text \<open>\<open>tuple(map(int, xs))\<close>: the first piece that is not a number raises.\<close>

fun map_int :: "nat \<Rightarrow> string list \<Rightarrow> py_error + nat list" where
  "map_int max_str_digits [] = Inr []"
| "map_int max_str_digits (x # xs) =
     (case py_int max_str_digits x of Inl e \<Rightarrow> Inl e
      | Inr v \<Rightarrow>
          (case map_int max_str_digits xs of Inl e \<Rightarrow> Inl e | Inr vs \<Rightarrow> Inr (v # vs)))"

text \<open>\<open>a < b\<close> on tuples of integers: lexicographic, a proper prefix is smaller.\<close>

fun tuple_less :: "nat list \<Rightarrow> nat list \<Rightarrow> bool" where
  "tuple_less [] [] = False"
| "tuple_less [] (y # ys) = True"
| "tuple_less (x # xs) [] = False"
| "tuple_less (x # xs) (y # ys) = (if x = y then tuple_less xs ys else x < y)"

text \<open>\<^verbatim>\<open>SWIG Version ([\d\.]+)\<close>, given to \<open>re.search\<close>.\<close>

definition rx_swig_version :: rx where
  "rx_swig_version = RSeq (lit ''SWIG Version '') (RGroup 1 (rx_plus (RCls (digit_chars @ ''.''))))"

text \<open>
  The locator reads the host through two functions and a number: \<open>which\<close> is
  \<open>shutil.which\<close>, \<open>check_output\<close> is \<open>subprocess.check_output\<close> on an argument
  vector, \<open>max_str_digits\<close> is the limit of \<open>int\<close>. The list of argument vectors handed
  to \<open>subprocess.check_output\<close> so far is threaded through, so that a call that starts
  no subprocess leaves it as it was. Only \<open>CalledProcessError\<close> and \<open>FileNotFoundError\<close>
  are caught.
\<close>

type_synonym calls = "string list list"

fun is_supported_swig_version ::
  "nat \<Rightarrow> (string list \<Rightarrow> proc_result) \<Rightarrow> string option \<Rightarrow> calls
     \<Rightarrow> (py_error + bool) \<times> calls" where
  "is_supported_swig_version max_str_digits check_output None cl = (Inr False, cl)"
| "is_supported_swig_version max_str_digits check_output (Some swig_executable) cl =
     (let cl' = cl @ [[swig_executable, ''-version'']] in
      case check_output [swig_executable, ''-version''] of
        ProcCalledProcessError \<Rightarrow> (Inr False, cl')
      | ProcFileNotFoundError \<Rightarrow> (Inr False, cl')
      | ProcOtherOSError \<Rightarrow> (Inl OtherOSError, cl')
      | ProcUnicodeDecodeError \<Rightarrow> (Inl UnicodeDecodeError, cl')
      | Output output \<Rightarrow>
          (case re_search rx_swig_version output of
             None \<Rightarrow> (Inr False, cl')
           | Some res \<Rightarrow>
               (case group res 1 of
                  None \<Rightarrow> (Inl AttributeError, cl')
                | Some g \<Rightarrow>
                    (case map_int max_str_digits (split_on CHR ''.'' g) of
                       Inl e \<Rightarrow> (Inl e, cl')
                     | Inr v \<Rightarrow>
                         if tuple_less v [3, 0, 12] then (Inr False, cl') else (Inr True, cl')))))"

text \<open>
  The loop of \<open>BuildSupport.find_swig\<close> over its candidates; leaving the loop raises
  \<open>RuntimeError\<close>. The value returned is what \<open>shutil.which\<close> gave for the candidate.
\<close>

fun find_swig_loop ::
  "nat \<Rightarrow> (string \<Rightarrow> string option) \<Rightarrow> (string list \<Rightarrow> proc_result) \<Rightarrow> string list
     \<Rightarrow> calls \<Rightarrow> (py_error + string option) \<times> calls" where
  "find_swig_loop max_str_digits which check_output [] cl = (Inl RuntimeError, cl)"
| "find_swig_loop max_str_digits which check_output (candidate # rest) cl =
     (let swig_executable = which candidate in
      case is_supported_swig_version max_str_digits check_output swig_executable cl of
        (Inl e, cl') \<Rightarrow> (Inl e, cl')
      | (Inr True, cl') \<Rightarrow> (Inr swig_executable, cl')
      | (Inr False, cl') \<Rightarrow> find_swig_loop max_str_digits which check_output rest cl')"

definition find_swig ::
  "nat \<Rightarrow> (string \<Rightarrow> string option) \<Rightarrow> (string list \<Rightarrow> proc_result) \<Rightarrow> calls
     \<Rightarrow> (py_error + string option) \<times> calls" where
  "find_swig max_str_digits which check_output cl =
     find_swig_loop max_str_digits which check_output [''swig4.0'', ''swig''] cl"

section \<open>The file system\<close>

text \<open>
  A directory tree: a file with its content, or a directory with its entries in the
  order in which the operating system lists them. A path is the list of entry names
  that leads from the root of the tree to a node. The tree shows every name as what it
  leads to: a symbolic link to a directory is a directory of the tree, a link that leads
  nowhere has no place in it. That a name is a link, and what the operating system
  refuses, is not recorded in the tree: the operations whose outcome depends on it,
  \<open>shutil.rmtree\<close> and \<open>os.walk\<close>, are given predicates on paths. An operation that
  raises does so for the reasons written out.
\<close>

datatype fsnode = File string | Dir "(string \<times> fsnode) list"

type_synonym path = "string list"

fun lookup :: "fsnode \<Rightarrow> path \<Rightarrow> fsnode option" where
  "lookup n [] = Some n"
| "lookup (File c) (x # xs) = None"
| "lookup (Dir es) (x # xs) = (case map_of es x of None \<Rightarrow> None | Some m \<Rightarrow> lookup m xs)"

text \<open>\<open>os.path.exists\<close>, \<open>os.path.isdir\<close> and being a regular file.\<close>

definition exists :: "fsnode \<Rightarrow> path \<Rightarrow> bool" where
  "exists fs p = (lookup fs p \<noteq> None)"

definition isdir :: "fsnode \<Rightarrow> path \<Rightarrow> bool" where
  "isdir fs p = (case lookup fs p of Some (Dir es) \<Rightarrow> True | _ \<Rightarrow> False)"

definition isfile :: "fsnode \<Rightarrow> path \<Rightarrow> bool" where
  "isfile fs p = (case lookup fs p of Some (File c) \<Rightarrow> True | _ \<Rightarrow> False)"



text \<open>The node at a path replaced by its image under \<open>f\<close>; nothing happens when there is none.\<close>

fun modify_at :: "path \<Rightarrow> (fsnode \<Rightarrow> fsnode) \<Rightarrow> fsnode \<Rightarrow> fsnode" where
  "modify_at [] f n = f n"
| "modify_at (x # xs) f (File c) = File c"
| "modify_at (x # xs) f (Dir es) =
     Dir (map (\<lambda>e. if fst e = x then (fst e, modify_at xs f (snd e)) else e) es)"

fun remove_entry :: "string \<Rightarrow> fsnode \<Rightarrow> fsnode" where
  "remove_entry x (File c) = File c"
| "remove_entry x (Dir es) = Dir (filter (\<lambda>e. fst e \<noteq> x) es)"

fun set_entry_list :: "string \<Rightarrow> fsnode \<Rightarrow> (string \<times> fsnode) list \<Rightarrow> (string \<times> fsnode) list" where
  "set_entry_list x n [] = [(x, n)]"
| "set_entry_list x n (e # es) = (if fst e = x then (x, n) # es else e # set_entry_list x n es)"

fun set_entry :: "string \<Rightarrow> fsnode \<Rightarrow> fsnode \<Rightarrow> fsnode" where
  "set_entry x n (File c) = File c"
| "set_entry x n (Dir es) = Dir (set_entry_list x n es)"

text \<open>
  \<open>shutil.rmtree(p, ignore_errors=True)\<close> lets no error out, so what it leaves behind
  depends on what the tree does not record. It is given as two predicates on paths:
  \<open>islink q\<close> says that the name \<open>q\<close> is a symbolic link, \<open>fails q\<close> that the operating
  system refuses \<open>os.unlink\<close> or \<open>os.rmdir\<close> of the entry \<open>q\<close> (a missing permission, a
  file in use).

  \<open>rm_node\<close> is the removal of one entry, \<open>None\<close> when the entry is gone: a file and a
  symbolic link are unlinked; a directory is emptied entry by entry and then removed,
  which fails while it keeps an entry.
\<close>

fun rm_node :: "(path \<Rightarrow> bool) \<Rightarrow> (path \<Rightarrow> bool) \<Rightarrow> path \<Rightarrow> fsnode \<Rightarrow> fsnode option" where
  "rm_node islink fails p (File c) = (if fails p then Some (File c) else None)"
| "rm_node islink fails p (Dir es) =
     (if islink p then (if fails p then Some (Dir es) else None)
      else
        (let es' = concat (map (\<lambda>e. case rm_node islink fails (p @ [fst e]) (snd e) of
                                       None \<Rightarrow> []
                                     | Some n \<Rightarrow> [(fst e, n)])
                             es)
         in if es' = [] \<and> \<not> fails p then None else Some (Dir es')))"

text \<open>
  \<open>rmtree\<close> itself refuses a path that is a symbolic link, and on a regular file and on
  a missing path it raises at once; with the errors ignored nothing happens in the three
  cases. Of a directory it removes what it can.
\<close>

definition rmtree :: "(path \<Rightarrow> bool) \<Rightarrow> (path \<Rightarrow> bool) \<Rightarrow> path \<Rightarrow> fsnode \<Rightarrow> fsnode" where
  "rmtree islink fails p fs =
     (if p = [] \<or> islink p then fs
      else (case lookup fs p of
              Some (Dir es) \<Rightarrow>
                (case rm_node islink fails p (Dir es) of
                   None \<Rightarrow> modify_at (butlast p) (remove_entry (last p)) fs
                 | Some n \<Rightarrow> modify_at p (\<lambda>d. n) fs)
            | _ \<Rightarrow> fs))"

text \<open>
  \<open>os.makedirs(p)\<close>: the missing directories on the way are created; \<open>FileExistsError\<close>
  when \<open>p\<close> is there already, \<open>NotADirectoryError\<close> when the way leads through a file.
\<close>

fun mk_chain :: "path \<Rightarrow> fsnode" where
  "mk_chain [] = Dir []"
| "mk_chain (x # xs) = Dir [(x, mk_chain xs)]"

fun makedirs :: "path \<Rightarrow> fsnode \<Rightarrow> py_error + fsnode" where
  "makedirs [] n = Inl FileExistsError"
| "makedirs (x # xs) (File c) = Inl NotADirectoryError"
| "makedirs (x # xs) (Dir es) =
     (case map_of es x of
        None \<Rightarrow> Inr (Dir (es @ [(x, mk_chain xs)]))
      | Some m \<Rightarrow>
          (case makedirs xs m of Inl e \<Rightarrow> Inl e | Inr m' \<Rightarrow> Inr (Dir (set_entry_list x m' es))))"

text \<open>
  \<open>shutil.copy(src, dst)\<close>: into \<open>dst\<close> when that is a directory, onto \<open>dst\<close> otherwise.
\<close>

definition write_file :: "path \<Rightarrow> string \<Rightarrow> fsnode \<Rightarrow> py_error + fsnode" where
  "write_file p c fs =
     (if p \<noteq> [] \<and> isdir fs (butlast p)
      then (if isdir fs p then Inl IsADirectoryError
            else Inr (modify_at (butlast p) (set_entry (last p) (File c)) fs))
      else Inl FileNotFoundError)"

definition copy :: "path \<Rightarrow> path \<Rightarrow> fsnode \<Rightarrow> py_error + fsnode" where
  "copy src dst fs =
     (let target = (if isdir fs dst \<and> src \<noteq> [] then dst @ [last src] else dst) in
      case lookup fs src of
        None \<Rightarrow> Inl FileNotFoundError
      | Some (Dir es) \<Rightarrow> Inl IsADirectoryError
      | Some (File c) \<Rightarrow> if target = src then Inl SameFileError else write_file target c fs)"

text \<open>
  \<open>shutil.copytree(src, dst)\<close>: \<open>dst\<close> must not exist; it is created with the directories
  on the way and receives the content of \<open>src\<close>.
\<close>

definition copytree :: "path \<Rightarrow> path \<Rightarrow> fsnode \<Rightarrow> py_error + fsnode" where
  "copytree src dst fs =
     (case lookup fs src of
        None \<Rightarrow> Inl FileNotFoundError
      | Some (File c) \<Rightarrow> Inl NotADirectoryError
      | Some (Dir es) \<Rightarrow>
          (case makedirs dst fs of
             Inl e \<Rightarrow> Inl e
           | Inr fs' \<Rightarrow> Inr (modify_at dst (\<lambda>n. Dir es) fs')))"

text \<open>
  \<open>os.walk(top)\<close>, top down: for each directory its path, the names of its
  sub-directories and the names of its files. A sub-directory whose name is a symbolic
  link is listed but not entered (\<open>followlinks\<close> is left at \<open>False\<close>); \<open>top\<close> itself is
  entered in any case. Errors of the scan are ignored, so a \<open>top\<close> that is a file yields
  nothing.
\<close>

fun walk ::
  "(path \<Rightarrow> bool) \<Rightarrow> path \<Rightarrow> fsnode \<Rightarrow> (path \<times> string list \<times> string list) list" where
  "walk islink root (File c) = []"
| "walk islink root (Dir es) =
     (root,
      map fst (filter (\<lambda>e. case snd e of Dir ds \<Rightarrow> True | File c \<Rightarrow> False) es),
      map fst (filter (\<lambda>e. case snd e of Dir ds \<Rightarrow> False | File c \<Rightarrow> True) es))
     # concat (map (\<lambda>e. if islink (root @ [fst e]) then []
                         else walk islink (root @ [fst e]) (snd e)) es)"


text \<open>
  \<open>fnmatch\<close> with the wildcards \<open>*\<close> and \<open>?\<close>. No pattern of the script contains a
  bracket, which is taken literally here. Names are compared as they are written, as
  \<open>fnmatch\<close> does on a POSIX host; on Windows it compares them without regard to case.
\<close>

fun fnmatch :: "string \<Rightarrow> string \<Rightarrow> bool" where
  "fnmatch [] [] = True"
| "fnmatch [] (c # cs) = False"
| "fnmatch (p # ps) [] = (p = CHR ''*'' \<and> fnmatch ps [])"
| "fnmatch (p # ps) (c # cs) =
     (if p = CHR ''*'' then fnmatch ps (c # cs) \<or> fnmatch (p # ps) cs
      else if p = CHR ''?'' then fnmatch ps cs
      else p = c \<and> fnmatch ps cs)"

definition has_magic :: "string \<Rightarrow> bool" where
  "has_magic s = (\<exists>c\<in>set s. c \<in> set ''*?['')"

definition ishidden :: "string \<Rightarrow> bool" where
  "ishidden s = (case s of [] \<Rightarrow> False | c # cs \<Rightarrow> c = CHR ''.'')"

text \<open>
  \<open>glob.glob\<close> on a pattern whose directory part \<open>dir\<close> has no wildcard and whose last
  component is \<open>pat\<close>: without a wildcard the path itself when it exists; with one, the
  entries of \<open>dir\<close> that match, hidden ones only for a pattern that starts with a dot.
\<close>

definition glob :: "path \<Rightarrow> string \<Rightarrow> fsnode \<Rightarrow> path list" where
  "glob dir pat fs =
     (if \<not> has_magic pat then (if exists fs (dir @ [pat]) then [dir @ [pat]] else [])
      else (case lookup fs dir of
              Some (Dir es) \<Rightarrow>
                map (\<lambda>name. dir @ [name])
                  (filter (\<lambda>name. (ishidden pat \<or> \<not> ishidden name) \<and> fnmatch pat name)
                     (map fst es))
            | _ \<Rightarrow> []))"

text \<open>The components of a relative path written with slashes.\<close>

definition path_of :: "string \<Rightarrow> path" where
  "path_of s = filter (\<lambda>w. w \<noteq> []) (split_on CHR ''/'' s)"

section \<open>The host and the platform profiles\<close>

text \<open>
  What the script reads from the machine it runs on. \<open>os_path_join\<close> and
  \<open>os_path_abspath\<close> are the functions of \<open>os.path\<close> on path strings; \<open>resolve\<close> gives the
  path in the tree that the operating system reaches for a path string taken from the
  environment; \<open>os_getcwd\<close> is the working directory, to which the relative names the
  script writes itself (\<open>./generated\<close>, \<open>./FAI_python\<close>, \<open>build\<close>, ...) refer.
  \<open>detect_msvc_ver\<close> is what \<open>_detect_msvc_ver\<close> finds by running the compiler.
  \<open>sys_int_max_str_digits\<close> is the limit of \<open>int\<close>; \<open>os_path_islink\<close> and
  \<open>os_remove_fails\<close> are the predicates that \<open>rmtree\<close> and \<open>os.walk\<close> depend on, as
  they hold while the script runs: the script creates no symbolic link.
\<close>

record host =
  platform_system :: string
  sys_maxsize :: int
  sys_version_major :: nat
  os_environ :: "string \<Rightarrow> string option"
  os_path_join :: "string \<Rightarrow> string \<Rightarrow> string"
  os_path_abspath :: "string \<Rightarrow> string"
  os_sep :: string
  os_getcwd :: path
  resolve :: "string \<Rightarrow> path"
  shutil_which :: "string \<Rightarrow> string option"
  subprocess_check_output :: "string list \<Rightarrow> proc_result"
  detect_msvc_ver :: "nat list"
  datetime_now :: datetime
  sys_int_max_str_digits :: nat
  os_path_islink :: "path \<Rightarrow> bool"
  os_remove_fails :: "path \<Rightarrow> bool"

definition get_machinewidth :: "host \<Rightarrow> nat" where
  "get_machinewidth h = (if sys_maxsize h > 2147483647 then 64 else 32)"

definition get_platform :: "host \<Rightarrow> string" where
  "get_platform h = platform_system h"

text \<open>
  The dictionary behind \<open>BuildSupport.BinPath\<close>, subscripted with the host's pair when the
  class body runs: a pair that is not a key raises \<open>KeyError\<close>.
\<close>

definition BinPath_table :: "((string \<times> nat) \<times> string) list" where
  "BinPath_table =
     [((''Windows'', 32), ''Win32''),
      ((''Windows'', 64), ''x64''),
      ((''Linux'', 32), ''lib''),
      ((''Linux'', 64), ''lib64''),
      ((''Darwin'', 64), ''lib64'')]"

definition BinPath :: "host \<Rightarrow> py_error + string" where
  "BinPath h =
     (case map_of BinPath_table (get_platform h, get_machinewidth h) of
        None \<Rightarrow> Inl KeyError
      | Some d \<Rightarrow> Inr d)"

datatype platform_class = BuildSupportWindows | BuildSupportLinux

type_synonym manifest = "(string \<times> (string \<times> string) list) list"

text \<open>
  The attributes of a build-support object. The class-level lists that the methods
  append to are fields of the one object the script creates.
\<close>

record profile =
  platform_class :: platform_class
  SwigExe :: "string option"
  SwigOptions :: "string list"
  RootDevDir :: string
  LibraryDirs :: "string list"
  DefineMacros :: "(string \<times> string option) list"
  ExtraCompileArgs :: "string list"
  ExtraLinkArgs :: "string list"
  RuntimeFiles :: manifest
  RuntimeFolders :: manifest
  msvc_ver :: "nat list"

subsection \<open>The records of a run\<close>

text \<open>
  The external programs the script runs and the packaging function it calls change the
  file system in ways the script does not determine; they are parameters.
  \<open>run_swig\<close> is \<open>subprocess.check_call\<close> on the argument vector of the code
  generator, \<open>run_doxygen\<close> the \<open>subprocess.call\<close> of the script that rebuilds the
  documentation of the sources, \<open>run_setup\<close> the call of \<open>setuptools.setup\<close>,
  \<open>run_generatedoc\<close> the \<open>subprocess.call\<close> of the script that generates the
  documentation of the Python interface. \<open>subprocess.call\<close> raises when the program
  cannot be started and returns its exit status, which the script ignores.
\<close>

record extension =
  sources :: "string list"
  library_dirs :: "string list"
  libraries :: "string list"
  extra_compile_args :: "string list"
  extra_link_args :: "string list"

record setup_args =
  setup_version :: string
  ext_modules :: "extension list"
  package_data :: "string list"

record tools =
  run_swig :: "string list \<Rightarrow> fsnode \<Rightarrow> py_error + fsnode"
  run_doxygen :: "fsnode \<Rightarrow> py_error + fsnode"
  run_setup :: "setup_args \<Rightarrow> fsnode \<Rightarrow> py_error option \<times> fsnode"
  run_generatedoc :: "fsnode \<Rightarrow> py_error + fsnode"

text \<open>The steps of a run, in the order in which they were started.\<close>

datatype step =
    UseDebugConfiguration
  | Clean string
  | RebuildDoxygen
  | CallSwig
  | CopyRuntime
  | MakeExtension extension
  | Setup setup_args
  | GeneratePythonDoc

text \<open>
  How a run ends: \<open>sys.exit(n)\<close>, an exception nobody catches (exit status 1), or the
  end of the script (exit status 0).
\<close>

datatype outcome = Exit nat | Raised py_error | Finished

definition exit_status :: "outcome \<Rightarrow> nat" where
  "exit_status out = (case out of Exit n \<Rightarrow> n | Raised e \<Rightarrow> 1 | Finished \<Rightarrow> 0)"

record world =
  w_fs :: fsnode
  w_calls :: calls
  w_steps :: "step list"

text \<open>The options the argument parser of the script recognises.\<close>

record args =
  pp_version :: "string option"
  pp_debug :: bool
  swig_only :: bool
  skip_swig :: bool
  rebuild_doxygen :: bool
  generate_python_doc :: bool

definition SwigVersions :: "string list" where
  "SwigVersions = [''4.0.0'']"

text \<open>\<open>BuildSupport.SwigOptions\<close> after \<open>BuildSupport.__init__\<close>.\<close>

definition base_SwigOptions :: "host \<Rightarrow> string list" where
  "base_SwigOptions h =
     [''-Wextra'', ''-Wall'', ''-threads'']
       @ (if sys_version_major h = 3 then [''-py3''] else [])"

text \<open>The members of the set \<open>RuntimeDefaultDeploy\<close>.\<close>

definition RuntimeDefaultDeploy :: "string list" where
  "RuntimeDefaultDeploy = [''base'', ''genicam'', ''libpol'', ''libDemosaic'']"

definition GeneratedDir :: path where
  "GeneratedDir = [''generated'']"

definition PackageDir :: path where
  "PackageDir = [''FAI_python'']"

subsection \<open>\<open>BuildSupportWindows\<close>\<close>

definition Windows_RuntimeFiles :: manifest where
  "Windows_RuntimeFiles =
     [(''base'',
        [(''FAI_c.dll'', ''''), (''facamera.dll'', ''''), (''image.dll'', ''''),
         (''libusbK.dll'', ''''), (''opencv_world455.dll'', ''''),
         (''lsc_calibrate.dll'', ''''), (''libLSC.dll'', '''')]),
      (''genicam'',
        [(''dll'', ''''), (''dll'', ''''),
         (''CLAllSerial_MD_*.dll'', ''''), (''CLProtocol_MD_*.dll'', ''''),
         (''FirmwareUpdate_MD_*.dll'', ''''), (''GCBase_MD_*.dll'', ''''),
         (''GenApiJava_MD_*.dll'', ''''), (''GenApi_MD_*.dll'', ''''),
         (''GenCP_MD_*.dll'', ''''), (''GenTLJava_MD_*.dll'', ''''),
         (''log4cpp_MD_*.dll'', ''''), (''Log_MD_*.dll'', ''''),
         (''MathParser_MD_*.dll'', ''''), (''NodeMapData_MD_*.dll'', ''''),
         (''XmlParser_MD_*.dll'', '''')]),
      (''libpol'', [(''libpol.dll'', '''')]),
      (''libDemosaic'', [(''libDemosaic.dll'', '''')])]"

definition Windows_DefineMacros :: "(string \<times> string option) list" where
  "Windows_DefineMacros =
     [(''UNICODE'', None), (''_UNICODE'', None), (''_MSC_VER'', None),
      (''CAMERA_EXPORTS'', None), (''FA_GENAPI_C_EXPORTS'', None)]"

definition Windows_ExtraCompileArgs :: "string list" where
  "Windows_ExtraCompileArgs = [''/Gy'', ''/GL'', ''/EHsc'']"

definition Windows_ExtraLinkArgs :: "string list" where
  "Windows_ExtraLinkArgs = [''/OPT:REF'', ''/OPT:ICF'', ''/LTCG'']"

text \<open>
  \<open>BuildSupportWindows.find_swig\<close>: \<open>swigwin-<version>\swig.exe\<close> below the program
  directories the environment names, then the candidates of \<open>BuildSupport.find_swig\<close>.
\<close>

definition Windows_swig_candidates :: "host \<Rightarrow> string list" where
  "Windows_swig_candidates h =
     concat (map (\<lambda>prg. map (\<lambda>swig_version.
                os_path_join h (os_path_join h prg (''swigwin-'' @ swig_version)) ''swig.exe'')
              SwigVersions)
       (concat (map (\<lambda>n. case os_environ h n of None \<Rightarrow> [] | Some v \<Rightarrow> [v])
                  [''PROGRAMFILES'', ''PROGRAMFILES(X86)'', ''PROGRAMW6432''])))"

fun Windows_find_swig_loop ::
  "host \<Rightarrow> string list \<Rightarrow> calls \<Rightarrow> (py_error + string option) \<times> calls" where
  "Windows_find_swig_loop h [] cl =
     find_swig (sys_int_max_str_digits h) (shutil_which h) (subprocess_check_output h) cl"
| "Windows_find_swig_loop h (candidate # rest) cl =
     (case is_supported_swig_version (sys_int_max_str_digits h) (subprocess_check_output h)
             (Some candidate) cl of
        (Inl e, cl') \<Rightarrow> (Inl e, cl')
      | (Inr True, cl') \<Rightarrow> (Inr (Some candidate), cl')
      | (Inr False, cl') \<Rightarrow> Windows_find_swig_loop h rest cl')"

definition Windows_find_swig :: "host \<Rightarrow> calls \<Rightarrow> (py_error + string option) \<times> calls" where
  "Windows_find_swig h cl = Windows_find_swig_loop h (Windows_swig_candidates h) cl"

text \<open>\<open>BuildSupportWindows.__init__\<close>, in the order of its statements.\<close>

definition BuildSupportWindows_init :: "host \<Rightarrow> calls \<Rightarrow> (py_error + profile) \<times> calls" where
  "BuildSupportWindows_init h cl =
     (case Windows_find_swig h cl of
        (Inl e, cl') \<Rightarrow> (Inl e, cl')
      | (Inr exe, cl') \<Rightarrow>
          (case os_environ h ''FAI_SDK_ROOT_PATH'' of
             None \<Rightarrow> (Inl EnvironmentError, cl')
           | Some root \<Rightarrow>
               if root = [] then (Inl EnvironmentError, cl')
               else (Inr \<lparr>platform_class = BuildSupportWindows,
                          SwigExe = exe,
                          SwigOptions = base_SwigOptions h @ [''-D_WIN32'']
                            @ (if get_machinewidth h \<noteq> 32 then [''-D_WIN64''] else []),
                          RootDevDir = root,
                          LibraryDirs = [os_path_join h root ''lib/x64''],
                          DefineMacros = Windows_DefineMacros,
                          ExtraCompileArgs = Windows_ExtraCompileArgs
                            @ [''/I'' @ os_path_join h root ''include'']
                            @ (if \<not> tuple_less (detect_msvc_ver h) [19, 13]
                               then [''/permissive-''] else []),
                          ExtraLinkArgs = Windows_ExtraLinkArgs,
                          RuntimeFiles = Windows_RuntimeFiles,
                          RuntimeFolders = [],
                          msvc_ver = detect_msvc_ver h\<rparr>, cl')))"

subsection \<open>\<open>BuildSupportLinux\<close>\<close>

definition Linux_RuntimeFiles :: manifest where
  "Linux_RuntimeFiles =
     [(''base'',
        [(''libfacamera.so.*'', ''''), (''libcamera_u3v.so.*'', ''''),
         (''libfa_genapi_c.so.*'', ''''), (''libimage.so.*'', ''''),
         (''libfacamera_c.so.*'', '''')]),
      (''genicam'',
        [(''libCLAllSerial_*.so'', ''''), (''libGCBase_*.so'', ''''),
         (''libLog_*.so'', ''''), (''libXmlParser_*.so'', ''''),
         (''libCLProtocol_*.so'', ''''), (''libGenApi_*.so'', ''''),
         (''libMathParser_*.so'', ''''), (''libFirmwareUpdate_*.so'', ''''),
         (''liblog4cpp_*.so'', ''''), (''libNodeMapData_*.so'', '''')]),
      (''libpol'', [(''liblibpol.so.2.0.0'', '''')])]"

definition Linux_ExtraCompileArgs :: "string list" where
  "Linux_ExtraCompileArgs =
     [''-Wno-unknown-pragmas'', ''-fPIC'', ''-g0'', ''-Wall'', ''-O3'', ''-Wno-switch'']"

definition Linux_ExtraLinkArgs :: "string list" where
  "Linux_ExtraLinkArgs = [''-g0'', ''-Wl,--enable-new-dtags'', ''-Wl,-rpath,$ORIGIN'']"

text \<open>\<open>os.getenv("FAI_SDK_ROOT_PATH", "..")\<close> in the class body.\<close>

definition Linux_RootDevDir :: "host \<Rightarrow> string" where
  "Linux_RootDevDir h = (case os_environ h ''FAI_SDK_ROOT_PATH'' of None \<Rightarrow> ''..'' | Some v \<Rightarrow> v)"

text \<open>\<open>BuildSupportLinux.__init__\<close>, in the order of its statements.\<close>

definition BuildSupportLinux_init :: "host \<Rightarrow> calls \<Rightarrow> (py_error + profile) \<times> calls" where
  "BuildSupportLinux_init h cl =
     (case find_swig (sys_int_max_str_digits h) (shutil_which h) (subprocess_check_output h) cl of
        (Inl e, cl') \<Rightarrow> (Inl e, cl')
      | (Inr exe, cl') \<Rightarrow>
          (let root = Linux_RootDevDir h in
           (Inr \<lparr>platform_class = BuildSupportLinux,
                  SwigExe = exe,
                  SwigOptions = base_SwigOptions h @ [''-DSWIGWORDSIZE'' @ dec (get_machinewidth h)],
                  RootDevDir = root,
                  LibraryDirs = [root, os_path_join h root ''lib/x64''],
                  DefineMacros = [],
                  ExtraCompileArgs = Linux_ExtraCompileArgs
                    @ [''-I'' @ root, ''-I'' @ os_path_join h root ''include''],
                  ExtraLinkArgs = Linux_ExtraLinkArgs
                    @ [''-L'' @ os_path_join h root ''lib/x64'', ''-lrt'', ''-lusb-1.0'',
                       ''-lfa_genapi_c'', ''-lfacamera_c'', ''-limage'', ''-lGCBase_gcc48_v3_4''],
                  RuntimeFiles = Linux_RuntimeFiles,
                  RuntimeFolders = [],
                  msvc_ver = []\<rparr>, cl')))"

subsection \<open>\<open>BuildSupport.make\<close> and profile selection\<close>

text \<open>
  \<open>make\<close> creates the object of the class for the platform; for any other platform it
  logs \<open>Unsupported platform\<close> and falls off its end, which returns \<open>None\<close>.
\<close>

definition make :: "host \<Rightarrow> calls \<Rightarrow> (py_error + profile option) \<times> calls" where
  "make h cl =
     (if get_platform h = ''Windows''
      then (case BuildSupportWindows_init h cl of
              (Inl e, cl') \<Rightarrow> (Inl e, cl')
            | (Inr bs, cl') \<Rightarrow> (Inr (Some bs), cl'))
      else if get_platform h = ''Linux''
      then (case BuildSupportLinux_init h cl of
              (Inl e, cl') \<Rightarrow> (Inl e, cl')
            | (Inr bs, cl') \<Rightarrow> (Inr (Some bs), cl'))
      else (Inr None, cl))"

text \<open>
  Profile selection as the script performs it: the class body of \<open>BuildSupport\<close> with
  its \<open>BinPath\<close> lookup runs when the module is loaded, \<open>make\<close> is the first statement
  of the main part.
\<close>

definition select_profile :: "host \<Rightarrow> calls \<Rightarrow> (py_error + profile option) \<times> calls" where
  "select_profile h cl = (case BinPath h of Inl e \<Rightarrow> (Inl e, cl) | Inr d \<Rightarrow> make h cl)"

subsection \<open>\<open>use_debug_configuration\<close> and \<open>get_swig_includes\<close>\<close>

text \<open>\<open>xs.remove(x)\<close> with the \<open>ValueError\<close> of a missing \<open>x\<close> caught is \<open>remove1 x xs\<close>.\<close>

definition use_debug_configuration :: "profile \<Rightarrow> profile" where
  "use_debug_configuration bs =
     (case platform_class bs of
        BuildSupportWindows \<Rightarrow>
          bs\<lparr>ExtraCompileArgs := ExtraCompileArgs bs @ [''/Od'', ''/Zi''],
             ExtraLinkArgs := ExtraLinkArgs bs @ [''/DEBUG'']\<rparr>
      | BuildSupportLinux \<Rightarrow>
          bs\<lparr>ExtraCompileArgs :=
               remove1 ''-g0'' (remove1 ''-O3'' (ExtraCompileArgs bs)) @ [''-O0'', ''-g3''],
             ExtraLinkArgs := remove1 ''-g0'' (ExtraLinkArgs bs) @ [''-g3'']\<rparr>)"

definition startswith :: "string \<Rightarrow> string \<Rightarrow> bool" where
  "startswith s p = (take (length p) s = p)"

definition get_swig_includes :: "host \<Rightarrow> profile \<Rightarrow> string list" where
  "get_swig_includes h bs =
     (case platform_class bs of
        BuildSupportWindows \<Rightarrow> [os_path_join h (RootDevDir bs) ''include'']
      | BuildSupportLinux \<Rightarrow>
          map (drop 2) (filter (\<lambda>i. startswith i ''-I'') (ExtraCompileArgs bs)))"

section \<open>Staging: \<open>clean\<close>, \<open>copy_runtime\<close>, \<open>get_package_data_files\<close>\<close>

text \<open>
  \<open>BuildSupport.clean\<close>. The directories are named relative to the working directory of
  the host; \<open>additional_dirs\<close> is the empty list when the argument is left out.
\<close>

definition clean :: "host \<Rightarrow> string \<Rightarrow> path list \<Rightarrow> fsnode \<Rightarrow> py_error + fsnode" where
  "clean h mode additional_dirs fs =
     (if mode = ''skip'' then Inr fs
      else
        (let clean_dirs = [GeneratedDir, PackageDir] @ additional_dirs;
             fs' = foldl (\<lambda>f cdir. rmtree (os_path_islink h) (os_remove_fails h)
                                       (os_getcwd h @ cdir) f)
                     fs clean_dirs
         in if mode = ''keep''
            then (case makedirs (os_getcwd h @ GeneratedDir) fs' of
                    Inl e \<Rightarrow> Inl e
                  | Inr fs'' \<Rightarrow> makedirs (os_getcwd h @ PackageDir) fs'')
            else Inr fs'))"

text \<open>
  The loops of \<open>copy_runtime\<close>. A loop that raises leaves the file system as it was
  when the exception occurred; the result is the exception, if any, and the file system.
\<close>

fun copy_all :: "path list \<Rightarrow> path \<Rightarrow> fsnode \<Rightarrow> py_error option \<times> fsnode" where
  "copy_all [] dst fs = (None, fs)"
| "copy_all (f # rest) dst fs =
     (case copy f dst fs of Inl e \<Rightarrow> (Some e, fs) | Inr fs' \<Rightarrow> copy_all rest dst fs')"

text \<open>
  \<open>os.path.exists\<close> on the destination. \<open>BuildSupportLinux.copy_runtime\<close> tests
  \<open>os.path.abspath(os.path.join(self.PackageDir, dst))\<close>, a path without a separator at
  its end. \<open>BuildSupport.copy_runtime\<close> tests \<open>os.path.join(package_dir, dst)\<close> as it is,
  which ends with a separator when \<open>dst\<close> is empty or ends with one: such a path exists
  only when it leads to a directory.
\<close>

definition dst_exists :: "bool \<Rightarrow> string \<Rightarrow> path \<Rightarrow> fsnode \<Rightarrow> bool" where
  "dst_exists normalised dst full_dst fs =
     (if \<not> normalised \<and> (dst = [] \<or> last dst = CHR ''/'') then isdir fs full_dst
      else exists fs full_dst)"

text \<open>
  \<open>for src, dst in self.RuntimeFiles[package]\<close>: the destination below the package
  directory is created when the test finds nothing there (\<open>os.makedirs\<close> raises
  \<open>FileExistsError\<close> on a regular file of that name), then every match of the pattern
  below the runtime directory is copied into it. \<open>normalised\<close> tells the two variants
  of the test apart.
\<close>

fun copy_files ::
  "bool \<Rightarrow> path \<Rightarrow> path \<Rightarrow> (string \<times> string) list \<Rightarrow> fsnode \<Rightarrow> py_error option \<times> fsnode" where
  "copy_files normalised runtime_dir package_dir [] fs = (None, fs)"
| "copy_files normalised runtime_dir package_dir ((src, dst) # rest) fs =
     (let full_dst = package_dir @ path_of dst in
      case (if dst_exists normalised dst full_dst fs then Inr fs else makedirs full_dst fs) of
        Inl e \<Rightarrow> (Some e, fs)
      | Inr fs1 \<Rightarrow>
          (case copy_all (glob runtime_dir src fs1) full_dst fs1 of
             (Some e, fs2) \<Rightarrow> (Some e, fs2)
           | (None, fs2) \<Rightarrow> copy_files normalised runtime_dir package_dir rest fs2))"

text \<open>\<open>for src, dst in self.RuntimeFolders[package]\<close>: whole directories.\<close>

fun copy_folders ::
  "host \<Rightarrow> path \<Rightarrow> path \<Rightarrow> (string \<times> string) list \<Rightarrow> fsnode \<Rightarrow> py_error option \<times> fsnode" where
  "copy_folders h runtime_dir package_dir [] fs = (None, fs)"
| "copy_folders h runtime_dir package_dir ((src, dst) # rest) fs =
     (let fs1 = rmtree (os_path_islink h) (os_remove_fails h) (package_dir @ path_of dst) fs in
      case copytree (runtime_dir @ path_of src) (package_dir @ path_of dst) fs1 of
        Inl e \<Rightarrow> (Some e, fs1)
      | Inr fs2 \<Rightarrow> copy_folders h runtime_dir package_dir rest fs2)"

text \<open>
  \<open>BuildSupport.copy_runtime\<close>: \<open>packages\<close> lists the members of the set
  \<open>RuntimeDefaultDeploy\<close> in the order in which the loop meets them, which Python
  leaves open. Subscripting \<open>RuntimeFiles\<close> with a package it has no key for raises
  \<open>KeyError\<close>.
\<close>

fun copy_packages ::
  "host \<Rightarrow> manifest \<Rightarrow> manifest \<Rightarrow> path \<Rightarrow> path \<Rightarrow> string list \<Rightarrow> fsnode
     \<Rightarrow> py_error option \<times> fsnode" where
  "copy_packages h files folders runtime_dir package_dir [] fs = (None, fs)"
| "copy_packages h files folders runtime_dir package_dir (package # rest) fs =
     (case map_of files package of
        None \<Rightarrow> (Some KeyError, fs)
      | Some entries \<Rightarrow>
          (case copy_files False runtime_dir package_dir entries fs of
             (Some e, fs1) \<Rightarrow> (Some e, fs1)
           | (None, fs1) \<Rightarrow>
               (case (case map_of folders package of
                        None \<Rightarrow> (None, fs1)
                      | Some dirs \<Rightarrow> copy_folders h runtime_dir package_dir dirs fs1) of
                  (Some e, fs2) \<Rightarrow> (Some e, fs2)
                | (None, fs2) \<Rightarrow>
                    copy_packages h files folders runtime_dir package_dir rest fs2)))"

definition BuildSupport_copy_runtime ::
  "host \<Rightarrow> profile \<Rightarrow> string list \<Rightarrow> fsnode \<Rightarrow> py_error option \<times> fsnode" where
  "BuildSupport_copy_runtime h bs packages fs =
     copy_packages h (RuntimeFiles bs) (RuntimeFolders bs)
       (resolve h (os_path_join h (RootDevDir bs) ''lib/x64''))
       (os_getcwd h @ PackageDir) packages fs"

text \<open>\<open>BuildSupportLinux.copy_runtime\<close>, which has the loop over the files only.\<close>

fun Linux_copy_packages ::
  "manifest \<Rightarrow> path \<Rightarrow> path \<Rightarrow> string list \<Rightarrow> fsnode \<Rightarrow> py_error option \<times> fsnode" where
  "Linux_copy_packages files runtime_dir package_dir [] fs = (None, fs)"
| "Linux_copy_packages files runtime_dir package_dir (package # rest) fs =
     (case map_of files package of
        None \<Rightarrow> (Some KeyError, fs)
      | Some entries \<Rightarrow>
          (case copy_files True runtime_dir package_dir entries fs of
             (Some e, fs1) \<Rightarrow> (Some e, fs1)
           | (None, fs1) \<Rightarrow> Linux_copy_packages files runtime_dir package_dir rest fs1))"

definition BuildSupportLinux_copy_runtime ::
  "host \<Rightarrow> profile \<Rightarrow> string list \<Rightarrow> fsnode \<Rightarrow> py_error option \<times> fsnode" where
  "BuildSupportLinux_copy_runtime h bs packages fs =
     Linux_copy_packages (RuntimeFiles bs) (resolve h (RootDevDir bs @ ''/lib''))
       (os_getcwd h @ PackageDir) packages fs"

text \<open>
  \<open>BuildSupportWindows.copy_runtime\<close>: the loop of the base class, then the runtime
  libraries of the compiler from the system directory.
\<close>

definition Windows_runtime_dlls :: "host \<Rightarrow> profile \<Rightarrow> string list" where
  "Windows_runtime_dlls h bs =
     [''vcruntime140.dll'', ''msvcp140.dll'']
       @ (if get_machinewidth h = 64 \<and> \<not> tuple_less (msvc_ver bs) [19, 20]
          then [''vcruntime140_1.dll''] else [])"

definition BuildSupportWindows_copy_runtime ::
  "host \<Rightarrow> profile \<Rightarrow> string list \<Rightarrow> fsnode \<Rightarrow> py_error option \<times> fsnode" where
  "BuildSupportWindows_copy_runtime h bs packages fs =
     (case BuildSupport_copy_runtime h bs packages fs of
        (Some e, fs1) \<Rightarrow> (Some e, fs1)
      | (None, fs1) \<Rightarrow>
          (case os_environ h ''PROCESSOR_ARCHITECTURE'' of
             None \<Rightarrow> (Some KeyError, fs1)
           | Some arch \<Rightarrow>
               (let wow = (case os_environ h ''PROCESSOR_ARCHITEW6432'' of
                             None \<Rightarrow> False | Some v \<Rightarrow> v \<noteq> []);
                    os_bits = (if arch = ''x86'' \<and> \<not> wow then 32 else (64::nat));
                    tgt_bits = get_machinewidth h;
                    sysname = (if tgt_bits = 64 \<or> os_bits = 32 then ''System32'' else ''SysWOW64'')
                in case os_environ h ''windir'' of
                     None \<Rightarrow> (Some KeyError, fs1)
                   | Some windir \<Rightarrow>
                       copy_all
                         (map (\<lambda>dll. resolve h (os_path_join h windir sysname) @ [dll])
                            (Windows_runtime_dlls h bs))
                         (os_getcwd h @ PackageDir) fs1)))"

definition copy_runtime ::
  "host \<Rightarrow> profile \<Rightarrow> string list \<Rightarrow> fsnode \<Rightarrow> py_error option \<times> fsnode" where
  "copy_runtime h bs packages fs =
     (case platform_class bs of
        BuildSupportWindows \<Rightarrow> BuildSupportWindows_copy_runtime h bs packages fs
      | BuildSupportLinux \<Rightarrow> BuildSupportLinux_copy_runtime h bs packages fs)"

text \<open>
  \<open>get_package_data_files\<close>: the four patterns, then for every entry of the package
  directory that is a directory the files that \<open>os.walk\<close> finds in it, each as
  \<open>os.path.relpath\<close> of its path to the package directory, which is the names below the
  package directory joined by the separator of the host.
\<close>

fun join_sep :: "string \<Rightarrow> path \<Rightarrow> string" where
  "join_sep sep [] = ''.''"
| "join_sep sep [x] = x"
| "join_sep sep (x # y # ys) = x @ sep @ join_sep sep (y # ys)"

definition relpath :: "string \<Rightarrow> path \<Rightarrow> path \<Rightarrow> string" where
  "relpath sep p start = join_sep sep (drop (length start) p)"

definition walk_files ::
  "(path \<Rightarrow> bool) \<Rightarrow> string \<Rightarrow> path \<Rightarrow> path \<Rightarrow> fsnode \<Rightarrow> string list" where
  "walk_files islink sep start jentry node =
     concat (map (\<lambda>(root, dirs, fnames). map (\<lambda>fname. relpath sep (root @ [fname]) start) fnames)
               (walk islink jentry node))"

definition get_package_data_files :: "host \<Rightarrow> fsnode \<Rightarrow> py_error + string list" where
  "get_package_data_files h fs =
     (let pdir = os_getcwd h @ PackageDir in
      case lookup fs pdir of
        None \<Rightarrow> Inl FileNotFoundError
      | Some (File c) \<Rightarrow> Inl NotADirectoryError
      | Some (Dir es) \<Rightarrow>
          Inr ([''*.dll'', ''*.zip'', ''*.so'', ''*.so.*'']
               @ concat (map (\<lambda>e. case snd e of
                                     Dir ds \<Rightarrow>
                                       walk_files (os_path_islink h) (os_sep h) pdir
                                         (pdir @ [fst e]) (snd e)
                                   | File c \<Rightarrow> [])
                           es)))"

section \<open>The orchestrator\<close>

text \<open>\<open>os.path.splitext(source)[0]\<close> for a file name: up to its last dot, if it has one.\<close>

definition splitext_root :: "string \<Rightarrow> string" where
  "splitext_root s =
     (if CHR ''.'' \<in> set s then rev (tl (dropWhile (\<lambda>c. c \<noteq> CHR ''.'') (rev s))) else s)"

text \<open>Opening a file for appending and writing \<open>s\<close> to it; the file is created if missing.\<close>

definition append_file :: "path \<Rightarrow> string \<Rightarrow> fsnode \<Rightarrow> py_error + fsnode" where
  "append_file p s f =
     (case lookup f p of
        Some (File c) \<Rightarrow> write_file p (c @ s) f
      | _ \<Rightarrow> write_file p s f)"

text \<open>
  \<open>call_swig(sourcedir, source, version, skip)\<close>: returns the name of the generated C
  file; unless skipped it extends \<open>SwigOptions\<close> by the include paths, runs the code
  generator, appends the version to the generated module and touches \<open>__init__.py\<close>.
  \<open>sourcedir\<close>, which the script gives as \<open>.\<close>, is the working directory of the code
  generator and so belongs to \<open>run_swig\<close>.
\<close>

definition call_swig ::
  "host \<Rightarrow> tools \<Rightarrow> profile \<Rightarrow> string \<Rightarrow> string \<Rightarrow> bool \<Rightarrow> fsnode
     \<Rightarrow> (py_error + string) \<times> profile \<times> fsnode" where
  "call_swig h t bs source version skip f =
     (let name = splitext_root source;
          cpp_name = os_path_abspath h
                       (os_path_join h (os_path_join h ''.'' ''generated'') (name @ ''_wrap.c''))
      in if skip then (Inr cpp_name, bs, f)
         else
           (let outdir = os_path_abspath h (os_path_join h ''.'' ''FAI_python'');
                bs' = bs\<lparr>SwigOptions :=
                         SwigOptions bs @ map (\<lambda>inc. ''-I'' @ inc) (get_swig_includes h bs)\<rparr>;
                call_args = [pct_s (SwigExe bs'), ''-python'', ''-outdir'', outdir, ''-o'', cpp_name]
                              @ SwigOptions bs' @ [source]
            in case run_swig t call_args f of
                 Inl e \<Rightarrow> (Inl e, bs', f)
               | Inr f1 \<Rightarrow>
                   (case append_file (os_getcwd h @ PackageDir @ [name @ ''.py''])
                           ([CHR 0x0A] @ ''__version__ = '' @ [CHR 0x27] @ version
                              @ [CHR 0x27] @ [CHR 0x0A]) f1 of
                      Inl e \<Rightarrow> (Inl e, bs', f1)
                    | Inr f2 \<Rightarrow>
                        (case append_file (os_getcwd h @ PackageDir @ [''__init__.py'']) [] f2 of
                           Inl e \<Rightarrow> (Inl e, bs', f2)
                         | Inr f3 \<Rightarrow> (Inr cpp_name, bs', f3)))))"

text \<open>
  The end of the script: the extension description, the package data, \<open>setup\<close>, and the
  documentation of the Python interface when \<open>--generate-python-doc\<close> was given.
  \<open>src\<close> is \<open>None\<close> when help was asked for: the name \<open>fai_python_src\<close> is then unbound.
\<close>

definition main_package ::
  "host \<Rightarrow> tools \<Rightarrow> profile \<Rightarrow> string \<Rightarrow> args \<Rightarrow> string option \<Rightarrow> world
     \<Rightarrow> outcome \<times> world" where
  "main_package h t bs version a src w =
     (case src of
        None \<Rightarrow> (Raised NameError, w)
      | Some fai_python_src \<Rightarrow>
          (let fai_python_ext =
                 \<lparr>sources = [fai_python_src], library_dirs = LibraryDirs bs,
                  libraries = [''FAI_c''], extra_compile_args = ExtraCompileArgs bs,
                  extra_link_args = ExtraLinkArgs bs\<rparr>;
               w1 = w\<lparr>w_steps := w_steps w @ [MakeExtension fai_python_ext]\<rparr>
           in case get_package_data_files h (w_fs w1) of
                Inl e \<Rightarrow> (Raised e, w1)
              | Inr package_data_files \<Rightarrow>
                  (let sa = \<lparr>setup_version = version, ext_modules = [fai_python_ext],
                             package_data = package_data_files\<rparr>;
                       w2 = w1\<lparr>w_steps := w_steps w1 @ [Setup sa]\<rparr>
                   in case run_setup t sa (w_fs w2) of
                        (Some e, f) \<Rightarrow> (Raised e, w2\<lparr>w_fs := f\<rparr>)
                      | (None, f) \<Rightarrow>
                          if generate_python_doc a
                          then (let w3 = w2\<lparr>w_fs := f,
                                           w_steps := w_steps w2 @ [GeneratePythonDoc]\<rparr> in
                                case run_generatedoc t (w_fs w3) of
                                  Inl e \<Rightarrow> (Raised e, w3)
                                | Inr f' \<Rightarrow> (Finished, w3\<lparr>w_fs := f'\<rparr>))
                          else (Finished, w2\<lparr>w_fs := f\<rparr>))))"

text \<open>
  The build proper, which is skipped when help was asked for, in the three blocks of the
  script. The first rebuilds the documentation when asked to. A block that ends the
  run gives the outcome; otherwise the run goes on.
\<close>

definition main_doxygen :: "tools \<Rightarrow> args \<Rightarrow> world \<Rightarrow> outcome option \<times> world" where
  "main_doxygen t a w =
     (if rebuild_doxygen a
      then (let w1 = w\<lparr>w_steps := w_steps w @ [RebuildDoxygen]\<rparr> in
            case run_doxygen t (w_fs w1) of
              Inl e \<Rightarrow> (Some (Raised e), w1)
            | Inr f \<Rightarrow> (None, w1\<lparr>w_fs := f\<rparr>))
      else (None, w))"

text \<open>
  The block that cleans or keeps the two directories, calls the code generator, stops
  when only generation was asked for, and stages the runtime. It hands on the name of
  the generated source and the profile.
\<close>

definition main_swig ::
  "host \<Rightarrow> tools \<Rightarrow> profile \<Rightarrow> string \<Rightarrow> args \<Rightarrow> string list \<Rightarrow> world
     \<Rightarrow> (outcome + string \<times> profile) \<times> world" where
  "main_swig h t bs version a packages w =
     (let mode = (if skip_swig a then ''skip'' else ''keep'');
          w2 = w\<lparr>w_steps := w_steps w @ [Clean mode]\<rparr>
      in case clean h mode [] (w_fs w2) of
           Inl e \<Rightarrow> (Inl (Raised e), w2)
         | Inr f2 \<Rightarrow>
             (let w3 = w2\<lparr>w_fs := f2, w_steps := w_steps w2 @ [CallSwig]\<rparr> in
              case call_swig h t bs ''FAI_python.i'' version (skip_swig a) (w_fs w3) of
                (Inl e, bs', f3) \<Rightarrow> (Inl (Raised e), w3\<lparr>w_fs := f3\<rparr>)
              | (Inr fai_python_src, bs', f3) \<Rightarrow>
                  if swig_only a then (Inl (Exit 0), w3\<lparr>w_fs := f3\<rparr>)
                  else
                    (let w4 = w3\<lparr>w_fs := f3, w_steps := w_steps w3 @ [CopyRuntime]\<rparr> in
                     case copy_runtime h bs' packages (w_fs w4) of
                       (Some e, f4) \<Rightarrow> (Inl (Raised e), w4\<lparr>w_fs := f4\<rparr>)
                     | (None, f4) \<Rightarrow> (Inr (fai_python_src, bs'), w4\<lparr>w_fs := f4\<rparr>))))"

definition main_build ::
  "host \<Rightarrow> tools \<Rightarrow> profile \<Rightarrow> string \<Rightarrow> args \<Rightarrow> string list \<Rightarrow> world \<Rightarrow> outcome \<times> world" where
  "main_build h t bs version a packages w =
     (case main_doxygen t a w of
        (Some out, w1) \<Rightarrow> (out, w1)
      | (None, w1) \<Rightarrow>
          (case main_swig h t bs version a packages w1 of
             (Inl out, w2) \<Rightarrow> (out, w2)
           | (Inr (fai_python_src, bs'), w2) \<Rightarrow>
               main_package h t bs' version a (Some fai_python_src) w2))"

text \<open>
  The main part of the script, from \<open>BuildSupport.make()\<close> on, for the arguments
  \<open>args\<close> that the parser recognised and the \<open>remainder\<close> it left. \<open>bs.dump()\<close> on
  \<open>None\<close> raises \<open>AttributeError\<close>. The default of \<open>--pp-version\<close> is computed whether
  or not the option is given, so an exception of \<open>get_git_version\<close> ends the run there.
\<close>

definition main ::
  "host \<Rightarrow> tools \<Rightarrow> args \<Rightarrow> string list \<Rightarrow> string list \<Rightarrow> fsnode \<Rightarrow> outcome \<times> world" where
  "main h t a remainder packages f =
     (case make h [] of
        (Inl e, cl) \<Rightarrow> (Raised e, \<lparr>w_fs = f, w_calls = cl, w_steps = []\<rparr>)
      | (Inr None, cl) \<Rightarrow> (Raised AttributeError, \<lparr>w_fs = f, w_calls = cl, w_steps = []\<rparr>)
      | (Inr (Some bs0), cl) \<Rightarrow>
          (let git = [''git'', ''describe'', ''--tags'', ''--dirty''];
               w0 = \<lparr>w_fs = f, w_calls = cl @ [git], w_steps = []\<rparr>
           in case get_git_version (subprocess_check_output h git) (datetime_now h) of
                Inl e \<Rightarrow> (Raised e, w0)
              | Inr default_version \<Rightarrow>
                  (let version0 = (case pp_version a of None \<Rightarrow> default_version | Some v \<Rightarrow> v);
                       help_mode = (''-h'' \<in> set remainder \<or> ''--help'' \<in> set remainder);
                       bs = (if pp_debug a then use_debug_configuration bs0 else bs0);
                       version = (if pp_debug a then version0 @ ''_dbg'' else version0);
                       w1 = (if pp_debug a
                             then w0\<lparr>w_steps := w_steps w0 @ [UseDebugConfiguration]\<rparr> else w0)
                   in if ''clean'' \<in> set remainder
                      then (let w2 = w1\<lparr>w_steps := w_steps w1 @ [Clean ''std'']\<rparr> in
                            case clean h ''std'' [[''build''], [''FAI_python.egg-info''], [''dist'']]
                                   (w_fs w2) of
                              Inl e \<Rightarrow> (Raised e, w2)
                            | Inr f' \<Rightarrow> (Exit 0, w2\<lparr>w_fs := f'\<rparr>))
                      else if help_mode then main_package h t bs version a None w1
                      else main_build h t bs version a packages w1)))"

text \<open>
  The script as a program: loading the module runs the class bodies, of which the
  \<open>BinPath\<close> lookup can raise; then the main part runs.
\<close>

definition script ::
  "host \<Rightarrow> tools \<Rightarrow> args \<Rightarrow> string list \<Rightarrow> string list \<Rightarrow> fsnode \<Rightarrow> outcome \<times> world" where
  "script h t a remainder packages f =
     (case BinPath h of
        Inl e \<Rightarrow> (Raised e, \<lparr>w_fs = f, w_calls = [], w_steps = []\<rparr>)
      | Inr d \<Rightarrow> main h t a remainder packages f)"

text \<open>The result of a constructor as the result of \<open>make\<close>.\<close>

definition wrap_profile :: "(py_error + profile) \<times> calls \<Rightarrow> (py_error + profile option) \<times> calls" where
  "wrap_profile r = (case r of (Inl e, cl') \<Rightarrow> (Inl e, cl') | (Inr bs, cl') \<Rightarrow> (Inr (Some bs), cl'))"

section \<open>Sample hosts\<close>

text \<open>
  Concrete hosts, tools and file systems on which the properties below are instantiated:
  a Linux and a Windows machine with the code generator installed as \<open>swig\<close>, and a
  Darwin machine.
\<close>

definition sample_now :: datetime where
  "sample_now =
     \<lparr>year = 2024, month = 3, day = 9, hour = 1, minute = 2, second = 3, microsecond = 17\<rparr>"

definition sample_check_output :: "string \<Rightarrow> string list \<Rightarrow> proc_result" where
  "sample_check_output swig argv =
     (if argv = [swig, ''-version'']
      then Output ([CHR 0x0A] @ ''SWIG Version 4.0.2'' @ [CHR 0x0A])
      else if argv = [''git'', ''describe'', ''--tags'', ''--dirty'']
      then Output (''1.2.3-14-gabcdef'' @ [CHR 0x0A])
      else ProcFileNotFoundError)"

definition sample_linux_host :: host where
  "sample_linux_host =
     \<lparr>platform_system = ''Linux'', sys_maxsize = 9223372036854775807, sys_version_major = 3,
      os_environ = (\<lambda>n. if n = ''FAI_SDK_ROOT_PATH'' then Some ''/opt/sdk'' else None),
      os_path_join = (\<lambda>a b. a @ ''/'' @ b),
      os_path_abspath = (\<lambda>p. ''/work/'' @ p),
      os_sep = ''/'', os_getcwd = [''work''], resolve = path_of,
      shutil_which = (\<lambda>c. if c = ''swig'' then Some ''/usr/bin/swig'' else None),
      subprocess_check_output = sample_check_output ''/usr/bin/swig'',
      detect_msvc_ver = [], datetime_now = sample_now,
      sys_int_max_str_digits = 4300, os_path_islink = (\<lambda>p. False),
      os_remove_fails = (\<lambda>p. False)\<rparr>"

definition sample_windows_host :: host where
  "sample_windows_host =
     \<lparr>platform_system = ''Windows'', sys_maxsize = 9223372036854775807, sys_version_major = 3,
      os_environ = (\<lambda>n. if n = ''FAI_SDK_ROOT_PATH'' then Some ''C:/sdk''
                         else if n = ''PROCESSOR_ARCHITECTURE'' then Some ''AMD64''
                         else if n = ''windir'' then Some ''C:/Windows'' else None),
      os_path_join = (\<lambda>a b. a @ ''/'' @ b),
      os_path_abspath = (\<lambda>p. ''C:/work/'' @ p),
      os_sep = ''/'', os_getcwd = [''C:'', ''work''], resolve = path_of,
      shutil_which = (\<lambda>c. if c = ''swig'' then Some ''C:/swig/swig.exe'' else None),
      subprocess_check_output = sample_check_output ''C:/swig/swig.exe'',
      detect_msvc_ver = [19, 29], datetime_now = sample_now,
      sys_int_max_str_digits = 4300, os_path_islink = (\<lambda>p. False),
      os_remove_fails = (\<lambda>p. False)\<rparr>"

definition sample_darwin_host :: host where
  "sample_darwin_host =
     \<lparr>platform_system = ''Darwin'', sys_maxsize = 9223372036854775807, sys_version_major = 3,
      os_environ = (\<lambda>n. None),
      os_path_join = (\<lambda>a b. a @ ''/'' @ b),
      os_path_abspath = (\<lambda>p. ''/work/'' @ p),
      os_sep = ''/'', os_getcwd = [''work''], resolve = path_of,
      shutil_which = (\<lambda>c. if c = ''swig'' then Some ''/usr/local/bin/swig'' else None),
      subprocess_check_output = sample_check_output ''/usr/local/bin/swig'',
      detect_msvc_ver = [], datetime_now = sample_now,
      sys_int_max_str_digits = 4300, os_path_islink = (\<lambda>p. False),
      os_remove_fails = (\<lambda>p. False)\<rparr>"

text \<open>
  The Linux machine in a repository whose newest tag is not text in the encoding of the
  locale: decoding the output of \<open>git describe\<close> fails.
\<close>

definition sample_undecodable_host :: host where
  "sample_undecodable_host =
     sample_linux_host
       \<lparr>subprocess_check_output :=
          (\<lambda>argv. if argv = [''git'', ''describe'', ''--tags'', ''--dirty'']
                  then ProcUnicodeDecodeError
                  else subprocess_check_output sample_linux_host argv)\<rparr>"

text \<open>Tools that succeed and leave the file system alone.\<close>

definition sample_tools :: tools where
  "sample_tools =
     \<lparr>run_swig = (\<lambda>argv f. Inr f), run_doxygen = (\<lambda>f. Inr f), run_setup = (\<lambda>sa f. (None, f)),
      run_generatedoc = (\<lambda>f. Inr f)\<rparr>"

definition sample_args :: args where
  "sample_args =
     \<lparr>pp_version = None, pp_debug = True, swig_only = False, skip_swig = False,
      rebuild_doxygen = False, generate_python_doc = False\<rparr>"

text \<open>
  A Linux tree: the SDK with one runtime library below \<open>/opt/sdk/lib\<close>, and a working
  directory after an earlier build.
\<close>

definition sample_linux_fs :: fsnode where
  "sample_linux_fs =
     Dir [(''opt'', Dir [(''sdk'', Dir [(''lib'', Dir [(''libfacamera.so.1'', File ''ELF'')])])]),
          (''work'',
            Dir [(''setup.py'', File ''''),
                 (''generated'', Dir [(''FAI_python_wrap.c'', File '''')]),
                 (''FAI_python'', Dir [(''__init__.py'', File '''')]),
                 (''build'', Dir [])])]"

text \<open>A Windows tree: the system directory with the compiler's runtime, the SDK, the sources.\<close>

definition sample_windows_fs :: fsnode where
  "sample_windows_fs =
     Dir [(''C:'',
            Dir [(''Windows'',
                   Dir [(''System32'',
                          Dir [(''vcruntime140.dll'', File ''v''), (''msvcp140.dll'', File ''m''),
                               (''vcruntime140_1.dll'', File ''w'')])]),
                 (''sdk'', Dir [(''lib'', Dir [(''x64'', Dir [(''FAI_c.dll'', File ''f'')])])]),
                 (''work'', Dir [(''FAI_python.i'', File '''')])])]"

text \<open>The profiles that the constructors build on the sample hosts.\<close>

definition sample_linux_profile :: profile where
  "sample_linux_profile =
     \<lparr>platform_class = BuildSupportLinux,
      SwigExe = Some ''/usr/bin/swig'',
      SwigOptions = [''-Wextra'', ''-Wall'', ''-threads'', ''-py3'', ''-DSWIGWORDSIZE64''],
      RootDevDir = ''/opt/sdk'',
      LibraryDirs = [''/opt/sdk'', ''/opt/sdk/lib/x64''],
      DefineMacros = [],
      ExtraCompileArgs = Linux_ExtraCompileArgs @ [''-I/opt/sdk'', ''-I/opt/sdk/include''],
      ExtraLinkArgs = Linux_ExtraLinkArgs
        @ [''-L/opt/sdk/lib/x64'', ''-lrt'', ''-lusb-1.0'', ''-lfa_genapi_c'', ''-lfacamera_c'',
           ''-limage'', ''-lGCBase_gcc48_v3_4''],
      RuntimeFiles = Linux_RuntimeFiles,
      RuntimeFolders = [],
      msvc_ver = []\<rparr>"

definition sample_windows_profile :: profile where
  "sample_windows_profile =
     \<lparr>platform_class = BuildSupportWindows,
      SwigExe = Some ''C:/swig/swig.exe'',
      SwigOptions = [''-Wextra'', ''-Wall'', ''-threads'', ''-py3'', ''-D_WIN32'', ''-D_WIN64''],
      RootDevDir = ''C:/sdk'',
      LibraryDirs = [''C:/sdk/lib/x64''],
      DefineMacros = Windows_DefineMacros,
      ExtraCompileArgs = Windows_ExtraCompileArgs @ [''/IC:/sdk/include'', ''/permissive-''],
      ExtraLinkArgs = Windows_ExtraLinkArgs,
      RuntimeFiles = Windows_RuntimeFiles,
      RuntimeFolders = [],
      msvc_ver = [19, 29]\<rparr>"


section \<open>What a run records\<close>

text \<open>
  Every extension description among the steps carries the compiler arguments \<open>cargs\<close>
  and the linker arguments \<open>largs\<close>, and every call of \<open>setup\<close> the version
  \<open>version\<close>.
\<close>

definition steps_use :: "string list \<Rightarrow> string list \<Rightarrow> string \<Rightarrow> step list \<Rightarrow> bool" where
  "steps_use cargs largs version ss =
     (\<forall>s\<in>set ss. case s of
          MakeExtension ext \<Rightarrow> extra_compile_args ext = cargs \<and> extra_link_args ext = largs
        | Setup sa \<Rightarrow> setup_version sa = version
        | _ \<Rightarrow> True)"

section \<open>Properties of the matcher\<close>

lemma push_suffix_simps [simp]: "fst (push_suffix u st) = fst st @ u" "snd (push_suffix u st) = snd st"
  by (simp_all add: push_suffix_def)

lemma rmatch_suffix:
  assumes "x \<notin> rx_chars r" "anchor_free r"
  shows "rmatch r (push_suffix (x # t) st) = map (push_suffix (x # t)) (rmatch r st)"
  using assms
proof (induction r st rule: rmatch.induct)
  case (1 st)
  then show ?case by simp
next
  case (2 cs st)
  then show ?case by (cases "fst st") (auto simp: push_suffix_def)
next
  case (3 a b st)
  have "concat (map (rmatch b) (map (push_suffix (x # t)) (rmatch a st)))
        = concat (map (\<lambda>s. map (push_suffix (x # t)) (rmatch b s)) (rmatch a st))"
    using 3 by (auto simp: map_concat intro!: arg_cong[where f=concat])
  then show ?case using 3 by (simp add: map_concat comp_def)
next
  case (4 a b st)
  then show ?case by simp
next
  case (5 a st)
  then show ?case by simp
next
  case (6 a st)
  have "concat (map (\<lambda>st'. if length (fst st') < length (fst (push_suffix (x # t) st)) then rmatch (RStar a) st' else [])
                 (map (push_suffix (x # t)) (rmatch a st)))
      = concat (map (\<lambda>st'. map (push_suffix (x # t)) (if length (fst st') < length (fst st) then rmatch (RStar a) st' else [])) (rmatch a st))"
    using 6 by (auto simp: comp_def intro!: arg_cong[where f=concat])
  then show ?case using 6 by (simp add: rmatch.simps(6) map_concat comp_def)
next
  case (7 k a st)
  then show ?case by (simp add: push_suffix_def)
next
  case (8 st)
  then show ?case by simp
qed

lemma rmatch_star_cases:
  assumes "st' \<in> set (rmatch (RStar a) st)"
  shows "st' = st \<or> (\<exists>m\<in>set (rmatch a st). length (fst m) < length (fst st) \<and> st' \<in> set (rmatch (RStar a) m))"
proof -
  from assms have "st' \<in> set (concat (map (\<lambda>st'. if length (fst st') < length (fst st) then rmatch (RStar a) st' else [])
                 (rmatch a st)) @ [st])" by (subst (asm) rmatch.simps(6))
  then have "st' = st \<or> (\<exists>m\<in>set (rmatch a st). st' \<in> set (if length (fst m) < length (fst st) then rmatch (RStar a) m else []))"
    by auto
  then show ?thesis by (metis empty_iff list.set(1))
qed

lemma rmatch_consumed:
  "st' \<in> set (rmatch r st) \<Longrightarrow> \<exists>p. fst st = p @ fst st' \<and> set p \<subseteq> rx_chars r"
proof (induction r st arbitrary: st' rule: rmatch.induct)
  case (1 st)
  then show ?case by simp
next
  case (2 cs st)
  then show ?case by (cases "fst st") (auto split: if_splits)
next
  case (3 a b st)
  then obtain m where m: "m \<in> set (rmatch a st)" "st' \<in> set (rmatch b m)" by auto
  from 3(1)[OF m(1)] obtain p where p: "fst st = p @ fst m" "set p \<subseteq> rx_chars a" by blast
  from 3(2)[OF m(1) m(2)] obtain q where q: "fst m = q @ fst st'" "set q \<subseteq> rx_chars b" by blast
  show ?case using p q by (intro exI[of _ "p @ q"]) auto
next
  case (4 a b st)
  from 4(3) have "st' \<in> set (rmatch a st) \<or> st' \<in> set (rmatch b st)" by simp
  then show ?case
  proof
    assume "st' \<in> set (rmatch a st)"
    from 4(1)[OF this] show ?thesis by auto
  next
    assume "st' \<in> set (rmatch b st)"
    from 4(2)[OF this] show ?thesis by auto
  qed
next
  case (5 a st)
  from 5(2) have "st' \<in> set (rmatch a st) \<or> st' = st" by auto
  then show ?case
  proof
    assume "st' \<in> set (rmatch a st)"
    from 5(1)[OF this] show ?thesis by auto
  next
    assume "st' = st"
    then show ?thesis by simp
  qed
next
  case (6 a st)
  from rmatch_star_cases[OF 6(3)] show ?case
  proof
    assume "st' = st"
    then show ?thesis by simp
  next
    assume "\<exists>m\<in>set (rmatch a st). length (fst m) < length (fst st) \<and> st' \<in> set (rmatch (RStar a) m)"
    then obtain m where m: "m \<in> set (rmatch a st)" "length (fst m) < length (fst st)"
       "st' \<in> set (rmatch (RStar a) m)" by blast
    from 6(1)[OF m(1)] obtain p where p: "fst st = p @ fst m" "set p \<subseteq> rx_chars a" by blast
    from 6(2)[OF m(1) m(2) m(3)] obtain q where q: "fst m = q @ fst st'" "set q \<subseteq> rx_chars (RStar a)" by blast
    show ?thesis using p q by (intro exI[of _ "p @ q"]) auto
  qed
next
  case (7 k a st)
  from 7(2) obtain m where m: "m \<in> set (rmatch a st)" "fst st' = fst m" by auto
  from 7(1)[OF m(1)] show ?case using m(2) by auto
next
  case (8 st)
  then show ?case by (auto split: if_splits)
qed

lemma rmatch_group_free:
  "st' \<in> set (rmatch r st) \<Longrightarrow> group_free r \<Longrightarrow> snd st' = snd st"
proof (induction r st arbitrary: st' rule: rmatch.induct)
  case (1 st)
  then show ?case by simp
next
  case (2 cs st)
  then show ?case by (cases "fst st") (auto split: if_splits)
next
  case (3 a b st)
  then obtain m where m: "m \<in> set (rmatch a st)" "st' \<in> set (rmatch b m)" by auto
  have "snd m = snd st" using 3(1)[OF m(1)] 3(4) by simp
  moreover have "snd st' = snd m" using 3(2)[OF m(1) m(2)] 3(4) by simp
  ultimately show ?case by simp
next
  case (4 a b st)
  from 4(3) have "st' \<in> set (rmatch a st) \<or> st' \<in> set (rmatch b st)" by simp
  then show ?case using 4(1,2,4) by (metis group_free.simps(4))
next
  case (5 a st)
  from 5(2) have "st' \<in> set (rmatch a st) \<or> st' = st" by auto
  then show ?case using 5(1,3) by (metis group_free.simps(5))
next
  case (6 a st)
  from rmatch_star_cases[OF 6(3)] show ?case
  proof
    assume "st' = st"
    then show ?thesis by simp
  next
    assume "\<exists>m\<in>set (rmatch a st). length (fst m) < length (fst st) \<and> st' \<in> set (rmatch (RStar a) m)"
    then obtain m where m: "m \<in> set (rmatch a st)" "length (fst m) < length (fst st)"
       "st' \<in> set (rmatch (RStar a) m)" by blast
    have "snd m = snd st" using 6(1)[OF m(1)] 6(4) by simp
    moreover have "snd st' = snd m" using 6(2)[OF m(1) m(2) m(3)] 6(4) by simp
    ultimately show ?thesis by simp
  qed
next
  case (7 k a st)
  then show ?case by simp
next
  case (8 st)
  then show ?case by (auto split: if_splits)
qed

lemma first_result_seq:
  "first_result a st = Some x \<Longrightarrow> first_result b x = Some y \<Longrightarrow> first_result (RSeq a b) st = Some y"
  by (auto simp: first_result_def split: list.splits)

lemma first_result_opt_some:
  "first_result a st = Some x \<Longrightarrow> first_result (ROpt a) st = Some x"
  by (auto simp: first_result_def split: list.splits)

lemma first_result_opt_none:
  "first_result a st = None \<Longrightarrow> first_result (ROpt a) st = Some st"
  by (auto simp: first_result_def split: list.splits)

lemma first_result_eps: "first_result REps st = Some st"
  by (simp add: first_result_def)

lemma first_result_cls:
  "x \<in> set cs \<Longrightarrow> first_result (RCls cs) (x # s, c) = Some (s, c)"
  by (simp add: first_result_def)

lemma concat_first:
  "\<forall>x\<in>set xs. x = x0 \<or> f x = [] \<Longrightarrow> x0 \<in> set xs \<Longrightarrow> f x0 = y # ys
   \<Longrightarrow> \<exists>zs. concat (map f xs) = y # zs"
  by (induction xs) auto

lemma first_result_seq_unique:
  assumes "\<forall>x\<in>set (rmatch a st). x = x0 \<or> rmatch b x = []"
    and "x0 \<in> set (rmatch a st)"
    and "first_result b x0 = Some y"
  shows "first_result (RSeq a b) st = Some y"
proof -
  from assms(3) obtain ys where "rmatch b x0 = y # ys"
    by (auto simp: first_result_def split: list.splits)
  from concat_first[OF assms(1) assms(2) this] show ?thesis
    by (auto simp: first_result_def)
qed

text \<open>A segment matched as a whole by a, followed by something a cannot consume.\<close>

lemma seq_segment:
  assumes af: "anchor_free a"
    and full: "([], c0) \<in> set (rmatch a (seg, c))"
    and uniq: "\<forall>st'\<in>set (rmatch a (seg, c)). fst st' = [] \<longrightarrow> st' = ([], c0)"
    and u: "u = [] \<or> hd u \<notin> rx_chars a"
    and dies: "\<And>y w c'. y \<in> rx_chars a \<Longrightarrow> rmatch b (y # w, c') = []"
    and cont: "first_result b (u, c0) = Some r"
  shows "first_result (RSeq a b) (seg @ u, c) = Some r"
proof -
  have res: "rmatch a (seg @ u, c) = map (push_suffix u) (rmatch a (seg, c))"
  proof (cases u)
    case Nil
    have "push_suffix [] = (\<lambda>st. st)" by (rule ext) (simp add: push_suffix_def)
    with Nil show ?thesis by simp
  next
    case (Cons x t)
    with u have "x \<notin> rx_chars a" by simp
    from rmatch_suffix[OF this af, of t "(seg, c)"] show ?thesis
      by (simp add: Cons push_suffix_def)
  qed
  from rmatch_consumed[OF full] have seg_chars: "set seg \<subseteq> rx_chars a" by auto
  have "first_result (RSeq a b) (seg @ u, c) = Some r"
  proof (rule first_result_seq_unique[where ?x0.0 = "(u, c0)"])
    show "\<forall>x\<in>set (rmatch a (seg @ u, c)). x = (u, c0) \<or> rmatch b x = []"
    proof
      fix x assume "x \<in> set (rmatch a (seg @ u, c))"
      then obtain st' where st': "st' \<in> set (rmatch a (seg, c))" "x = push_suffix u st'"
        unfolding res by auto
      show "x = (u, c0) \<or> rmatch b x = []"
      proof (cases "fst st'")
        case Nil
        with uniq st'(1) have "st' = ([], c0)" by blast
        then show ?thesis by (simp add: st'(2) push_suffix_def)
      next
        case (Cons y w)
        from rmatch_consumed[OF st'(1)] obtain p where "seg = p @ y # w" by (auto simp: Cons)
        with seg_chars have "y \<in> rx_chars a" by auto
        from dies[OF this] have "rmatch b (y # (w @ u), snd st') = []" .
        then show ?thesis by (simp add: st'(2) push_suffix_def Cons)
      qed
    qed
    show "(u, c0) \<in> set (rmatch a (seg @ u, c))"
      unfolding res using full by (force simp: push_suffix_def)
    show "first_result b (u, c0) = Some r" by (rule cont)
  qed
  then show ?thesis .
qed

lemma rmatch_star_cls_nil: "rmatch (RStar (RCls cs)) ([], c) = [([], c)]"
  by (subst rmatch.simps(6)) simp

lemma rmatch_star_cls_cons:
  "rmatch (RStar (RCls cs)) (x # xs, c) =
     (if x \<in> set cs then rmatch (RStar (RCls cs)) (xs, c) @ [(x # xs, c)] else [(x # xs, c)])"
  by (subst rmatch.simps(6)) simp

lemma first_result_star_cls:
  "set n \<subseteq> set cs \<Longrightarrow> u = [] \<or> hd u \<notin> set cs
   \<Longrightarrow> first_result (RStar (RCls cs)) (n @ u, c) = Some (u, c)"
proof (induction n)
  case Nil
  then show ?case
    by (cases u) (auto simp: first_result_def rmatch_star_cls_nil rmatch_star_cls_cons)
next
  case (Cons x n)
  then have "first_result (RStar (RCls cs)) (n @ u, c) = Some (u, c)" by simp
  with Cons(2) show ?case
    by (auto simp: first_result_def rmatch_star_cls_cons split: list.splits)
qed

lemma first_result_plus_cls:
  assumes "set n \<subseteq> set cs" "n \<noteq> []" "u = [] \<or> hd u \<notin> set cs"
  shows "first_result (rx_plus (RCls cs)) (n @ u, c) = Some (u, c)"
proof (cases n)
  case Nil
  with assms(2) show ?thesis by simp
next
  case (Cons x n')
  from assms(1) Cons have "first_result (RCls cs) (x # n' @ u, c) = Some (n' @ u, c)"
    by (simp add: first_result_cls)
  moreover from assms Cons have "first_result (RStar (RCls cs)) (n' @ u, c) = Some (u, c)"
    by (intro first_result_star_cls) auto
  ultimately show ?thesis
    unfolding rx_plus_def Cons using first_result_seq by fastforce
qed

lemma add_caps_simps [simp]: "fst (add_caps d st) = fst st" "snd (add_caps d st) = snd st @ d"
  by (simp_all add: add_caps_def)

lemma rmatch_caps:
  "rmatch r (add_caps d st) = map (add_caps d) (rmatch r st)"
proof (induction r st rule: rmatch.induct)
  case (1 st)
  then show ?case by simp
next
  case (2 cs st)
  then show ?case by (cases "fst st") (auto simp: add_caps_def)
next
  case (3 a b st)
  have "concat (map (rmatch b) (map (add_caps d) (rmatch a st)))
        = concat (map (\<lambda>s. map (add_caps d) (rmatch b s)) (rmatch a st))"
    using 3 by (auto simp: map_concat intro!: arg_cong[where f=concat])
  then show ?case using 3 by (simp add: map_concat comp_def)
next
  case (4 a b st)
  then show ?case by simp
next
  case (5 a st)
  then show ?case by simp
next
  case (6 a st)
  have "concat (map (\<lambda>st'. if length (fst st') < length (fst (add_caps d st)) then rmatch (RStar a) st' else [])
                 (map (add_caps d) (rmatch a st)))
      = concat (map (\<lambda>st'. map (add_caps d) (if length (fst st') < length (fst st) then rmatch (RStar a) st' else [])) (rmatch a st))"
    using 6 by (auto simp: comp_def intro!: arg_cong[where f=concat])
  then show ?case using 6 by (simp add: rmatch.simps(6) map_concat comp_def)
next
  case (7 k a st)
  then show ?case by (simp add: add_caps_def)
next
  case (8 st)
  then show ?case by (simp add: add_caps_def)
qed

lemma full_match_any_caps:
  assumes "full_match r s" "group_free r"
  shows "([], c) \<in> set (rmatch r (s, c))"
proof -
  from assms(1) obtain c' where c': "([], c') \<in> set (rmatch r (s, []))"
    by (auto simp: full_match_def)
  from rmatch_group_free[OF this assms(2)] have "c' = []" by simp
  with c' have "add_caps c ([], []) \<in> set (map (add_caps c) (rmatch r (s, [])))" by force
  then show ?thesis using rmatch_caps[of r c "(s, [])"] by (simp add: add_caps_def)
qed

lemma group_free_unique:
  "group_free r \<Longrightarrow> \<forall>st'\<in>set (rmatch r (s, c)). fst st' = [] \<longrightarrow> st' = ([], c)"
  using rmatch_group_free by (metis prod.collapse snd_conv)

lemma group_full:
  assumes "([], c) \<in> set (rmatch r (s, c))"
  shows "([], (k, s) # c) \<in> set (rmatch (RGroup k r) (s, c))"
  using assms by force

lemma group_unique:
  assumes "group_free r"
  shows "\<forall>st'\<in>set (rmatch (RGroup k r) (s, c)). fst st' = [] \<longrightarrow> st' = ([], (k, s) # c)"
proof (intro ballI impI)
  fix st' assume a: "st' \<in> set (rmatch (RGroup k r) (s, c))" "fst st' = []"
  then obtain m where m: "m \<in> set (rmatch r (s, c))"
     "st' = (fst m, (k, take (length s - length (fst m)) s) # snd m)" by auto
  from rmatch_group_free[OF m(1) assms] have "snd m = c" by simp
  with m(2) a(2) show "st' = ([], (k, s) # c)" by simp
qed

lemma first_result_group:
  assumes "first_result r (n @ u, c) = Some (u, c')"
  shows "first_result (RGroup k r) (n @ u, c) = Some (u, (k, n) # c')"
  using assms by (auto simp: first_result_def split: list.splits)

section \<open>Properties of the version resolver\<close>

lemma version_core_props [simp]: "anchor_free version_core" "group_free version_core"
  by (simp_all add: version_core_def rx_plus_def rx_rep_2_3_def rx_d_def lit_def)

lemma rx_local_props [simp]: "anchor_free rx_local" "group_free rx_local"
  by (simp_all add: rx_local_def)

lemma version_core_chars:
  "rx_chars version_core = set digit_chars \<union> set ''.abrc''"
  by (auto simp: version_core_def rx_plus_def rx_rep_2_3_def rx_d_def lit_def)

lemma rx_local_chars:
  "rx_chars rx_local = set alnum_chars \<union> set ''.+''"
  by (auto simp: rx_local_def)

lemma tail_dies_local:
  assumes "y \<noteq> CHR ''+''" "y \<noteq> CHR ''-''" "y \<noteq> CHR 0x0A"
  shows "rmatch (seqs [rx_local, rx_distance, rx_dirty, RDollar]) (y # w, c) = []"
  using assms by (simp add: rx_local_def rx_distance_def rx_dirty_def lit_def)

lemma tail_dies_distance:
  assumes "y \<noteq> CHR ''-''" "y \<noteq> CHR 0x0A"
  shows "rmatch (seqs [rx_distance, rx_dirty, RDollar]) (y # w, c) = []"
  using assms by (simp add: rx_distance_def rx_dirty_def lit_def)

lemma dirty_end:
  assumes "dirty = [] \<or> dirty = ''-dirty''"
  shows "first_result (seqs [rx_dirty, RDollar]) (dirty, c) = Some ([], c)"
  using assms by (auto simp: rx_dirty_def lit_def first_result_def)

lemma distance_first:
  assumes n: "n \<noteq> []" "set n \<subseteq> set digit_chars"
    and h: "h \<noteq> []" "set h \<subseteq> set hex_chars"
    and d: "dirty = [] \<or> dirty = ''-dirty''"
  shows "first_result rx_distance (''-'' @ n @ ''-g'' @ h @ dirty, c) = Some (dirty, (2, n) # c)"
proof -
  have 1: "first_result (rx_plus rx_d) (n @ ''-g'' @ h @ dirty, c) = Some (''-g'' @ h @ dirty, c)"
    unfolding rx_d_def using n by (intro first_result_plus_cls) (auto simp: digit_chars_def)
  have 2: "first_result (rx_plus (RCls hex_chars)) (h @ dirty, (2, n) # c) = Some (dirty, (2, n) # c)"
    using h d by (intro first_result_plus_cls) (auto simp: hex_chars_def)
  have 3: "first_result (seqs [RCls ''-'', RCls ''g'', rx_plus (RCls hex_chars)]) (''-g'' @ h @ dirty, (2, n) # c)
           = Some (dirty, (2, n) # c)"
    using 2 by (auto intro!: first_result_seq first_result_cls first_result_eps)
  have 4: "first_result (seqs [RGroup 2 (rx_plus rx_d), RCls ''-'', RCls ''g'', rx_plus (RCls hex_chars)])
             (n @ ''-g'' @ h @ dirty, c) = Some (dirty, (2, n) # c)"
    using first_result_seq[OF first_result_group[OF 1] 3] by simp
  have 5: "first_result (seqs [RCls ''-'', RGroup 2 (rx_plus rx_d), RCls ''-'', RCls ''g'', rx_plus (RCls hex_chars)])
             (''-'' @ n @ ''-g'' @ h @ dirty, c) = Some (dirty, (2, n) # c)"
    using first_result_seq[OF first_result_cls 4, of "CHR ''-''" "''-''"] by simp
  show ?thesis unfolding rx_distance_def by (rule first_result_opt_some) (rule 5)
qed

lemma distance_tail_first:
  assumes n: "n \<noteq> []" "set n \<subseteq> set digit_chars"
    and h: "h \<noteq> []" "set h \<subseteq> set hex_chars"
    and d: "dirty = [] \<or> dirty = ''-dirty''"
  shows "first_result (seqs [rx_distance, rx_dirty, RDollar]) (''-'' @ n @ ''-g'' @ h @ dirty, c)
         = Some ([], (2, n) # c)"
  using first_result_seq[OF distance_first[OF n h d] dirty_end[OF d]] by simp

lemma dirty_tail_first:
  "first_result (seqs [rx_distance, rx_dirty, RDollar]) (''-dirty'', c) = Some ([], c)"
  by (simp add: rx_distance_def rx_dirty_def lit_def first_result_def rx_plus_def rx_d_def digit_chars_def)

lemma local_shape_head:
  assumes "local_shape loc"
  shows "loc = [] \<or> hd loc = CHR ''+''"
  using assms by (cases loc) (auto simp: local_shape_def full_match_def rx_local_def split: if_splits)

text \<open>base, then an optional local segment, then a tail that starts with a hyphen.\<close>

lemma git_ver_first:
  assumes base: "release_shape base" and loc: "local_shape loc"
    and tail: "first_result (seqs [rx_distance, rx_dirty, RDollar]) (CHR ''-'' # t, [(1, base)]) = Some r"
  shows "first_result rx_git_ver (base @ loc @ CHR ''-'' # t, []) = Some r"
proof -
  let ?u = "CHR ''-'' # t"
  have l: "first_result (seqs [rx_local, rx_distance, rx_dirty, RDollar]) (loc @ ?u, [(1, base)]) = Some r"
    unfolding seqs.simps(2)[of rx_local]
  proof (rule seq_segment[where ?c0.0 = "[(1, base)]"])
    show "anchor_free rx_local" by simp
    show "([], [(1, base)]) \<in> set (rmatch rx_local (loc, [(1, base)]))"
      using loc by (intro full_match_any_caps) (simp_all add: local_shape_def)
    show "\<forall>st'\<in>set (rmatch rx_local (loc, [(1, base)])). fst st' = [] \<longrightarrow> st' = ([], [(1, base)])"
      by (rule group_free_unique) simp
    show "?u = [] \<or> hd ?u \<notin> rx_chars rx_local"
      by (simp add: rx_local_chars alnum_chars_def)
    show "\<And>y w c'. y \<in> rx_chars rx_local \<Longrightarrow> rmatch (seqs [rx_distance, rx_dirty, RDollar]) (y # w, c') = []"
      by (rule tail_dies_distance) (auto simp: rx_local_chars alnum_chars_def)
    show "first_result (seqs [rx_distance, rx_dirty, RDollar]) (?u, [(1, base)]) = Some r" by (rule tail)
  qed
  show ?thesis
    unfolding rx_git_ver_def seqs.simps(2)[of "RGroup 1 version_core"]
  proof (rule seq_segment[where ?c0.0 = "[(1, base)]"])
    show "anchor_free (RGroup 1 version_core)" by simp
    show "([], [(1, base)]) \<in> set (rmatch (RGroup 1 version_core) (base, []))"
      using base by (intro group_full full_match_any_caps) (simp_all add: release_shape_def)
    show "\<forall>st'\<in>set (rmatch (RGroup 1 version_core) (base, [])). fst st' = [] \<longrightarrow> st' = ([], [(1, base)])"
      by (rule group_unique) simp
    show "loc @ ?u = [] \<or> hd (loc @ ?u) \<notin> rx_chars (RGroup 1 version_core)"
      using local_shape_head[OF loc] by (cases loc) (auto simp: version_core_chars digit_chars_def)
    show "\<And>y w c'. y \<in> rx_chars (RGroup 1 version_core) \<Longrightarrow>
            rmatch (seqs [rx_local, rx_distance, rx_dirty, RDollar]) (y # w, c') = []"
      by (rule tail_dies_local) (auto simp: version_core_chars digit_chars_def)
    show "first_result (seqs [rx_local, rx_distance, rx_dirty, RDollar]) (loc @ ?u, [(1, base)]) = Some r"
      by (rule l)
  qed
qed

lemma rel_no_match:
  assumes "x = CHR ''+'' \<or> x = CHR ''-''"
  shows "re_match rx_rel (base @ x # t) = None"
proof -
  have x: "x \<notin> rx_chars version_core"
    using assms by (auto simp: version_core_chars digit_chars_def)
  have "rmatch version_core (base @ x # t, []) = map (push_suffix (x # t)) (rmatch version_core (base, []))"
    using rmatch_suffix[OF x, of t "(base, [])"] by (simp add: push_suffix_def)
  moreover have "rmatch RDollar (push_suffix (x # t) st) = []" for st
  proof -
    have "fst st @ x # t \<noteq> [CHR 0x0A]"
    proof
      assume e: "fst st @ x # t = [CHR 0x0A]"
      have "x \<in> set (fst st @ x # t)" by simp
      with e have "x = CHR 0x0A" by simp
      with assms show False by auto
    qed
    then show ?thesis by (simp add: push_suffix_def)
  qed
  ultimately have "rmatch rx_rel (base @ x # t, []) = []"
    by (simp add: rx_rel_def)
  then show ?thesis by (simp add: re_match_def first_result_def)
qed

lemma rel_match:
  assumes "release_shape s"
  shows "re_match rx_rel s \<noteq> None"
proof -
  from assms obtain c where "([], c) \<in> set (rmatch version_core (s, []))"
    by (auto simp: release_shape_def full_match_def)
  moreover have "rmatch RDollar ([], c) \<noteq> []" by simp
  ultimately have "rmatch rx_rel (s, []) \<noteq> []"
    unfolding rx_rel_def by (simp del: rmatch.simps(8)) blast
  then show ?thesis by (auto simp: re_match_def first_result_def split: list.splits)
qed

lemma group_simps: "group ((k, v) # m) j = (if j = k then Some v else group m j)" "group [] j = None"
  by (auto simp: group_def)

text \<open>Unfolding the patterns and the string helpers evaluates the resolver on a given string.\<close>

lemmas rx_eval = Let_def strip_def lstrip_def whitespace_def re_match_def first_result_def
  rx_rel_def rx_git_ver_def version_core_def rx_plus_def rx_rep_2_3_def rx_d_def digit_chars_def
  lit_def rx_local_def rx_distance_def rx_dirty_def alnum_chars_def hex_chars_def
  rmatch_star_cls_nil rmatch_star_cls_cons group_def pct_s_def group_or_0_def
  full_match_def release_shape_def local_shape_def

text \<open>
  Claim C1, as the code has it. The output of \<open>git describe\<close> is stripped of surrounding
  whitespace first. (1) A stripped output of release shape (what
  \<^verbatim>\<open>\d+(?:\.\d+){2,3}(?:(?:a|b|rc)\d*)?\<close> matches as a whole) is returned as it is.
  (2) A release-shaped base version, an optional local segment, then \<open>-N-gH\<close> with \<open>N\<close>
  a non-empty run of digits and \<open>H\<close> a non-empty run of lower-case hexadecimal digits,
  then an optional \<open>-dirty\<close>, gives base version, \<open>.dev\<close>, \<open>N\<close>.
  (3) A release-shaped base version, an optional local segment and \<open>-dirty\<close>, with no
  distance segment, gives base version and \<open>.dev0\<close>.
\<close>

theorem get_git_version_shapes:
  "(release_shape (strip out1) \<longrightarrow> get_git_version (Output out1) now = Inr (strip out1)) \<and>
   (release_shape base \<and> local_shape loc \<and> n \<noteq> [] \<and> set n \<subseteq> set digit_chars \<and>
    h \<noteq> [] \<and> set h \<subseteq> set hex_chars \<and> (dirty = [] \<or> dirty = ''-dirty'') \<and>
    strip out2 = base @ loc @ ''-'' @ n @ ''-g'' @ h @ dirty
      \<longrightarrow> get_git_version (Output out2) now = Inr (base @ ''.dev'' @ n)) \<and>
   (release_shape base \<and> local_shape loc \<and> strip out3 = base @ loc @ ''-dirty''
      \<longrightarrow> get_git_version (Output out3) now = Inr (base @ ''.dev0''))"
proof (intro conjI impI)
  assume "release_shape (strip out1)"
  from rel_match[OF this] show "get_git_version (Output out1) now = Inr (strip out1)"
    by (simp add: Let_def)
next
  assume a: "release_shape base \<and> local_shape loc \<and> n \<noteq> [] \<and> set n \<subseteq> set digit_chars \<and>
    h \<noteq> [] \<and> set h \<subseteq> set hex_chars \<and> (dirty = [] \<or> dirty = ''-dirty'') \<and>
    strip out2 = base @ loc @ ''-'' @ n @ ''-g'' @ h @ dirty"
  then have s: "strip out2 = base @ loc @ CHR ''-'' # (n @ ''-g'' @ h @ dirty)" by simp
  have t: "first_result (seqs [rx_distance, rx_dirty, RDollar])
             (CHR ''-'' # (n @ ''-g'' @ h @ dirty), [(1, base)]) = Some ([], [(2, n), (1, base)])"
    using distance_tail_first[of n h dirty "[(1, base)]"] a by simp
  from a have "first_result rx_git_ver (strip out2, []) = Some ([], [(2, n), (1, base)])"
    unfolding s by (intro git_ver_first t) simp_all
  then have dev: "re_match rx_git_ver (strip out2) = Some [(2, n), (1, base)]"
    by (simp add: re_match_def)
  have rel: "re_match rx_rel (strip out2) = None"
    using rel_no_match[of "CHR ''-''" "base @ loc" "n @ ''-g'' @ h @ dirty"] s by simp
  from a have "n \<noteq> []" by simp
  then show "get_git_version (Output out2) now = Inr (base @ ''.dev'' @ n)"
    by (simp add: Let_def dev rel group_simps pct_s_def group_or_0_def)
next
  assume a: "release_shape base \<and> local_shape loc \<and> strip out3 = base @ loc @ ''-dirty''"
  then have s: "strip out3 = base @ loc @ CHR ''-'' # ''dirty''" by simp
  have t: "first_result (seqs [rx_distance, rx_dirty, RDollar])
             (CHR ''-'' # ''dirty'', [(1, base)]) = Some ([], [(1, base)])"
    using dirty_tail_first[of "[(1, base)]"] by simp
  from a have "first_result rx_git_ver (strip out3, []) = Some ([], [(1, base)])"
    unfolding s by (intro git_ver_first t) simp_all
  then have dev: "re_match rx_git_ver (strip out3) = Some [(1, base)]"
    by (simp add: re_match_def)
  have rel: "re_match rx_rel (strip out3) = None"
    using rel_no_match[of "CHR ''-''" "base @ loc" "''dirty''"] s by simp
  show "get_git_version (Output out3) now = Inr (base @ ''.dev0'')"
    by (simp add: Let_def dev rel group_simps pct_s_def group_or_0_def)
qed

theorem get_git_version_shapes_witness:
  "release_shape (strip ''1.2.3\<newline>'') \<and>
   get_git_version (Output ''1.2.3\<newline>'')
     \<lparr>year = 2024, month = 3, day = 9, hour = 1, minute = 2, second = 3, microsecond = 17\<rparr>
   = Inr ''1.2.3'' \<and>
   release_shape ''1.2.3'' \<and> local_shape [] \<and>
   strip ''1.2.3-14-gabcdef\<newline>'' = ''1.2.3'' @ [] @ ''-'' @ ''14'' @ ''-g'' @ ''abcdef'' @ [] \<and>
   get_git_version (Output ''1.2.3-14-gabcdef\<newline>'')
     \<lparr>year = 2024, month = 3, day = 9, hour = 1, minute = 2, second = 3, microsecond = 17\<rparr>
   = Inr ''1.2.3.dev14'' \<and>
   strip ''1.2.3-dirty\<newline>'' = ''1.2.3'' @ [] @ ''-dirty'' \<and>
   get_git_version (Output ''1.2.3-dirty\<newline>'')
     \<lparr>year = 2024, month = 3, day = 9, hour = 1, minute = 2, second = 3, microsecond = 17\<rparr>
   = Inr ''1.2.3.dev0''"
proof -
  have s1: "strip ''1.2.3\<newline>'' = ''1.2.3''"
    by (simp add: strip_def lstrip_def whitespace_def)
  have s2: "strip ''1.2.3-14-gabcdef\<newline>'' = ''1.2.3'' @ [] @ ''-'' @ ''14'' @ ''-g'' @ ''abcdef'' @ []"
    by (simp add: strip_def lstrip_def whitespace_def)
  have s3: "strip ''1.2.3-dirty\<newline>'' = ''1.2.3'' @ [] @ ''-dirty''"
    by (simp add: strip_def lstrip_def whitespace_def)
  have r: "release_shape ''1.2.3''" by (simp add: rx_eval)
  have l: "local_shape []" by (simp add: rx_eval)
  have d: "set ''14'' \<subseteq> set digit_chars" "set ''abcdef'' \<subseteq> set hex_chars"
    by (simp_all add: digit_chars_def hex_chars_def)
  note t = get_git_version_shapes[of "''1.2.3\<newline>''"
      "\<lparr>year = 2024, month = 3, day = 9, hour = 1, minute = 2, second = 3, microsecond = 17\<rparr>"
      "''1.2.3''" "[]" "''14''" "''abcdef''" "[]"
      "''1.2.3-14-gabcdef\<newline>''" "''1.2.3-dirty\<newline>''"]
  from t r l d s1 s2 s3 show ?thesis by simp
qed

text \<open>
  Claim C1 as stated fails at its own example: the hash after \<open>-g\<close> must be lower-case
  hexadecimal, so \<open>1.2.3-14-gABCDEF\<close> matches neither pattern and the date-based
  fallback is returned, not \<open>1.2.3.dev14\<close>.
\<close>

theorem get_git_version_uppercase_hash_counterexample:
  "get_git_version (Output ''1.2.3-14-gABCDEF'')
     \<lparr>year = 2024, month = 3, day = 9, hour = 1, minute = 2, second = 3, microsecond = 17\<rparr>
   = Inr ''2024.3.9.dev3723'' \<and>
   get_git_version (Output ''1.2.3-14-gABCDEF'')
     \<lparr>year = 2024, month = 3, day = 9, hour = 1, minute = 2, second = 3, microsecond = 17\<rparr>
   \<noteq> Inr ''1.2.3.dev14''"
  by (simp add: rx_eval date_version_def todays_seconds_def dec.simps)

text \<open>
  The date-based fallback. When the query for the git description ends with an exception
  that the \<open>except\<close> clause names (a non-zero exit status, a missing executable or
  another \<open>OSError\<close>), and when its decoded and stripped output matches neither the
  release pattern nor the development pattern, \<open>get_git_version\<close> returns year, month
  and day of the clock reading joined by dots, then \<open>.dev\<close> and the seconds elapsed
  since midnight, all in decimal. The result depends on nothing but the clock reading.
\<close>

lemma date_fallback_when_caught:
  assumes "case res of
             Output out \<Rightarrow> re_match rx_rel (strip out) = None \<and> re_match rx_git_ver (strip out) = None
           | ProcUnicodeDecodeError \<Rightarrow> False
           | _ \<Rightarrow> True"
  shows "get_git_version res now =
           Inr (dec (year now) @ ''.'' @ dec (month now) @ ''.'' @ dec (day now) @ ''.dev''
                  @ dec (hour now * 3600 + minute now * 60 + second now))"
  using assms by (cases res) (simp_all add: Let_def date_version_def todays_seconds_def)

lemma date_fallback_example:
  "get_git_version (Output ''v1.2.3\<newline>'')
     \<lparr>year = 2024, month = 3, day = 9, hour = 1, minute = 2, second = 3, microsecond = 17\<rparr>
   = Inr ''2024.3.9.dev3723''"
  by (simp add: rx_eval date_version_def todays_seconds_def dec.simps)

text \<open>
  Claim C4 fails when the query for the git description fails in decoding: the output of
  \<open>git describe\<close> is not text in the encoding of the locale, \<open>subprocess.check_output\<close>
  raises \<open>UnicodeDecodeError\<close>, and the \<open>except\<close> clause, which names \<open>OSError\<close> and
  \<open>CalledProcessError\<close>, does not catch it. \<open>get_git_version\<close> returns no version then,
  whatever the clock reads, where a query that fails with a non-zero exit status gives
  the date-based version; and the script, which asks for the version before it looks at
  its arguments, ends with the exception before any step.
\<close>

theorem get_git_version_undecodable_raises:
  "get_git_version ProcUnicodeDecodeError now = Inl UnicodeDecodeError \<and>
   get_git_version ProcCalledProcessError now = Inr (date_version now) \<and>
   script sample_undecodable_host sample_tools sample_args [] RuntimeDefaultDeploy sample_linux_fs
     = (Raised UnicodeDecodeError,
        \<lparr>w_fs = sample_linux_fs,
         w_calls = [[''/usr/bin/swig'', ''-version''], [''git'', ''describe'', ''--tags'', ''--dirty'']],
         w_steps = []\<rparr>)"
  by (simp add: script_def main_def make_def BuildSupportLinux_init_def find_swig_def
        BinPath_def BinPath_table_def get_platform_def get_machinewidth_def
        sample_undecodable_host_def sample_linux_host_def sample_check_output_def
        rx_eval rx_swig_version_def py_int_def digit_value_def)

section \<open>Properties of the tool locator\<close>

text \<open>
  Claim C9: \<open>is_supported_swig_version\<close> given \<open>None\<close> for the executable returns
  \<open>False\<close>; it raises nothing, and the list of subprocess invocations is the one it was
  given, so no subprocess is started.
\<close>

theorem is_supported_swig_version_None:
  "is_supported_swig_version max_str_digits check_output None cl = (Inr False, cl)"
  by simp

text \<open>
  What the locator does with a well-formed report: a version of at least 3.0.12 is
  accepted, a smaller one rejected; a missing executable and one that exits with a
  non-zero status count as unsupported; the loop goes on after an unsupported candidate,
  returns the first supported one, and raises \<open>RuntimeError\<close> when every candidate is
  unsupported.
\<close>

lemmas swig_eval = rx_eval rx_swig_version_def py_int_def digit_value_def

lemma accepts_4_0_0:
  assumes "check_output [exe, ''-version''] = Output ''SWIG Version 4.0.0''"
  shows "is_supported_swig_version m check_output (Some exe) cl = (Inr True, cl @ [[exe, ''-version'']])"
  using assms by (simp add: swig_eval)

lemma rejects_2_9_9:
  assumes "check_output [exe, ''-version''] = Output ''SWIG Version 2.9.9''"
  shows "is_supported_swig_version m check_output (Some exe) cl = (Inr False, cl @ [[exe, ''-version'']])"
  using assms by (simp add: swig_eval)

lemma missing_or_failing_is_unsupported:
  assumes "check_output [exe, ''-version''] = ProcCalledProcessError
           \<or> check_output [exe, ''-version''] = ProcFileNotFoundError"
  shows "is_supported_swig_version m check_output (Some exe) cl = (Inr False, cl @ [[exe, ''-version'']])"
  using assms by auto

lemma find_swig_loop_continues:
  assumes "fst (is_supported_swig_version m check_output (which candidate) cl) = Inr False"
  shows "find_swig_loop m which check_output (candidate # rest) cl =
           find_swig_loop m which check_output rest
             (snd (is_supported_swig_version m check_output (which candidate) cl))"
  using assms by (cases "is_supported_swig_version m check_output (which candidate) cl") auto

lemma find_swig_loop_accepts:
  assumes "fst (is_supported_swig_version m check_output (which candidate) cl) = Inr True"
  shows "fst (find_swig_loop m which check_output (candidate # rest) cl) = Inr (which candidate)"
  using assms by (cases "is_supported_swig_version m check_output (which candidate) cl") auto

lemma find_swig_loop_none_supported:
  assumes "\<forall>c\<in>set cands. \<forall>cl. fst (is_supported_swig_version m check_output (which c) cl) = Inr False"
  shows "fst (find_swig_loop m which check_output cands cl) = Inl RuntimeError"
  using assms
proof (induction cands arbitrary: cl)
  case Nil
  then show ?case by simp
next
  case (Cons c cands)
  then have "fst (is_supported_swig_version m check_output (which c) cl) = Inr False" by simp
  from find_swig_loop_continues[of m check_output which c cl cands, OF this] Cons show ?case by simp
qed

text \<open>
  Claim C3 fails on a report whose version text has an empty component.
  \<^verbatim>\<open>[\d\.]+\<close> also matches a trailing dot, \<open>int('')\<close> raises \<open>ValueError\<close>, and
  nothing catches it: with \<open>swig4.0\<close> reporting \<open>SWIG Version 4.0.2.\<close> and \<open>swig\<close>
  reporting \<open>SWIG Version 4.0.2\<close>, \<open>find_swig\<close> raises \<open>ValueError\<close> after the
  first candidate. It neither accepts a candidate nor goes on to the second one, nor
  does it raise \<open>RuntimeError\<close>.
\<close>

theorem find_swig_malformed_version_raises:
  "find_swig 4300
     (\<lambda>c. if c = ''swig4.0'' then Some ''/usr/bin/swig4.0''
          else if c = ''swig'' then Some ''/usr/bin/swig'' else None)
     (\<lambda>argv. if argv = [''/usr/bin/swig4.0'', ''-version''] then Output ''SWIG Version 4.0.2.''
             else if argv = [''/usr/bin/swig'', ''-version''] then Output ''SWIG Version 4.0.2''
             else ProcFileNotFoundError)
     []
   = (Inl ValueError, [[''/usr/bin/swig4.0'', ''-version'']])"
  by (simp add: find_swig_def swig_eval)

section \<open>Properties of profile selection\<close>

lemma exit_status_Exit: "exit_status (Exit n) = n"
  by (simp add: exit_status_def)

lemma exit_status_Raised: "exit_status (Raised e) \<noteq> 0"
  by (simp add: exit_status_def)

lemma get_machinewidth_cases: "get_machinewidth h = 32 \<or> get_machinewidth h = 64"
  by (simp add: get_machinewidth_def)

lemma BinPath_Windows: "get_platform h = ''Windows'' \<Longrightarrow> \<exists>d. BinPath h = Inr d"
  using get_machinewidth_cases[of h] by (auto simp: BinPath_def BinPath_table_def)

lemma BinPath_Linux: "get_platform h = ''Linux'' \<Longrightarrow> \<exists>d. BinPath h = Inr d"
  using get_machinewidth_cases[of h] by (auto simp: BinPath_def BinPath_table_def)

lemma BinPath_Darwin:
  "get_platform h = ''Darwin'' \<Longrightarrow> BinPath h = (if get_machinewidth h = 64 then Inr ''lib64'' else Inl KeyError)"
  using get_machinewidth_cases[of h] by (auto simp: BinPath_def BinPath_table_def)

lemma BinPath_other:
  "get_platform h \<noteq> ''Windows'' \<Longrightarrow> get_platform h \<noteq> ''Linux'' \<Longrightarrow> get_platform h \<noteq> ''Darwin''
   \<Longrightarrow> BinPath h = Inl KeyError"
  by (auto simp: BinPath_def BinPath_table_def)

lemma select_profile_cases:
  "select_profile h cl =
     (if get_platform h = ''Windows'' then wrap_profile (BuildSupportWindows_init h cl)
      else if get_platform h = ''Linux'' then wrap_profile (BuildSupportLinux_init h cl)
      else if get_platform h = ''Darwin'' \<and> get_machinewidth h = 64 then (Inr None, cl)
      else (Inl KeyError, cl))"
proof -
  consider (w) "get_platform h = ''Windows''" | (l) "get_platform h = ''Linux''"
    | (d) "get_platform h = ''Darwin''"
    | (o) "get_platform h \<noteq> ''Windows''" "get_platform h \<noteq> ''Linux''" "get_platform h \<noteq> ''Darwin''"
    by blast
  then show ?thesis
  proof cases
    case w
    with BinPath_Windows[OF w] show ?thesis
      by (auto simp: select_profile_def make_def wrap_profile_def)
  next
    case l
    with BinPath_Linux[OF l] show ?thesis
      by (auto simp: select_profile_def make_def wrap_profile_def)
  next
    case d
    with BinPath_Darwin[OF d] show ?thesis
      by (auto simp: select_profile_def make_def)
  next
    case o
    with BinPath_other[OF o] show ?thesis
      by (auto simp: select_profile_def)
  qed
qed

lemma make_Some_platform:
  assumes "make h cl0 = (Inr (Some bs0), cl)"
  shows "get_platform h = ''Windows'' \<or> get_platform h = ''Linux''"
  using assms by (auto simp: make_def split: if_splits)

lemma make_Some_BinPath:
  assumes "make h cl0 = (Inr (Some bs0), cl)"
  shows "\<exists>d. BinPath h = Inr d"
  using make_Some_platform[OF assms] BinPath_Windows BinPath_Linux by blast

text \<open>
  The sample hosts evaluated: the constructors succeed on the Linux and on the Windows
  sample.
\<close>

lemmas sample_eval = sample_linux_host_def sample_windows_host_def sample_darwin_host_def
  sample_check_output_def sample_tools_def sample_args_def sample_now_def

lemma sample_linux_init:
  "BuildSupportLinux_init sample_linux_host [] =
     (Inr sample_linux_profile, [[''/usr/bin/swig'', ''-version'']])"
  by (simp add: BuildSupportLinux_init_def find_swig_def sample_eval sample_linux_profile_def
        swig_eval Linux_RootDevDir_def base_SwigOptions_def get_machinewidth_def dec.simps)

lemma sample_linux_make:
  "make sample_linux_host [] = (Inr (Some sample_linux_profile), [[''/usr/bin/swig'', ''-version'']])"
  using sample_linux_init by (simp add: make_def get_platform_def sample_linux_host_def)

lemma sample_windows_make:
  "make sample_windows_host [] =
     (Inr (Some sample_windows_profile), [[''C:/swig/swig.exe'', ''-version'']])"
  by (simp add: make_def get_platform_def BuildSupportWindows_init_def Windows_find_swig_def
        Windows_swig_candidates_def find_swig_def sample_eval sample_windows_profile_def
        swig_eval base_SwigOptions_def get_machinewidth_def)

text \<open>
  Claim C2, as the code has it. For Windows and for Linux, with either pointer width,
  profile selection gives what the constructor of the platform's class gives (the
  profile, or the exception the constructor raises). For Darwin with 64 bits the
  \<open>BinPath\<close> lookup succeeds, but \<open>make\<close> has no class for the platform: it returns
  \<open>None\<close>, no profile. For every other pair the \<open>BinPath\<close> lookup raises \<open>KeyError\<close>.
  On every platform but Windows and Linux the script ends with an exception before it
  does anything: \<open>AttributeError\<close> for Darwin with 64 bits (from \<open>bs.dump()\<close> on
  \<open>None\<close>), \<open>KeyError\<close> otherwise.
\<close>

theorem profile_selection:
  "select_profile h cl =
     (if get_platform h = ''Windows'' then wrap_profile (BuildSupportWindows_init h cl)
      else if get_platform h = ''Linux'' then wrap_profile (BuildSupportLinux_init h cl)
      else if get_platform h = ''Darwin'' \<and> get_machinewidth h = 64 then (Inr None, cl)
      else (Inl KeyError, cl)) \<and>
   (get_platform h2 \<noteq> ''Windows'' \<and> get_platform h2 \<noteq> ''Linux'' \<longrightarrow>
      script h2 t a remainder packages f =
        (Raised (if get_platform h2 = ''Darwin'' \<and> get_machinewidth h2 = 64
                 then AttributeError else KeyError),
         \<lparr>w_fs = f, w_calls = [], w_steps = []\<rparr>))"
proof (intro conjI impI)
  show "select_profile h cl =
     (if get_platform h = ''Windows'' then wrap_profile (BuildSupportWindows_init h cl)
      else if get_platform h = ''Linux'' then wrap_profile (BuildSupportLinux_init h cl)
      else if get_platform h = ''Darwin'' \<and> get_machinewidth h = 64 then (Inr None, cl)
      else (Inl KeyError, cl))"
    by (rule select_profile_cases)
next
  assume a: "get_platform h2 \<noteq> ''Windows'' \<and> get_platform h2 \<noteq> ''Linux''"
  show "script h2 t a remainder packages f =
        (Raised (if get_platform h2 = ''Darwin'' \<and> get_machinewidth h2 = 64
                 then AttributeError else KeyError),
         \<lparr>w_fs = f, w_calls = [], w_steps = []\<rparr>)"
  proof (cases "get_platform h2 = ''Darwin''")
    case True
    with a BinPath_Darwin[OF True] show ?thesis
      by (auto simp: script_def main_def make_def)
  next
    case False
    with a BinPath_other[of h2] show ?thesis
      by (auto simp: script_def)
  qed
qed

theorem profile_selection_witness:
  "get_platform sample_darwin_host \<noteq> ''Windows'' \<and> get_platform sample_darwin_host \<noteq> ''Linux'' \<and>
   script sample_darwin_host sample_tools sample_args [] RuntimeDefaultDeploy sample_linux_fs =
     (Raised AttributeError, \<lparr>w_fs = sample_linux_fs, w_calls = [], w_steps = []\<rparr>)"
proof -
  have p: "get_platform sample_darwin_host \<noteq> ''Windows'' \<and> get_platform sample_darwin_host \<noteq> ''Linux''"
    by (simp add: get_platform_def sample_darwin_host_def)
  have w: "get_platform sample_darwin_host = ''Darwin'' \<and> get_machinewidth sample_darwin_host = 64"
    by (simp add: get_platform_def get_machinewidth_def sample_darwin_host_def)
  from profile_selection[of sample_darwin_host "[]" sample_darwin_host sample_tools sample_args "[]"
      RuntimeDefaultDeploy sample_linux_fs] p w
  show ?thesis by simp
qed

text \<open>
  Claim C2 as stated fails for Darwin with 64 bits: the pair is a key of \<open>BinPath\<close>,
  and profile selection returns \<open>None\<close> instead of a profile.
\<close>

theorem profile_selection_darwin_counterexample:
  "BinPath sample_darwin_host = Inr ''lib64'' \<and>
   select_profile sample_darwin_host [] = (Inr None, [])"
  by (simp add: select_profile_def make_def BinPath_def BinPath_table_def get_platform_def
        get_machinewidth_def sample_darwin_host_def)

section \<open>Properties of the file system\<close>

lemmas fs_eval = exists_def isdir_def isfile_def rmtree_def write_file_def copy_def copytree_def
  glob_def has_magic_def ishidden_def path_of_def append_file_def relpath_def walk_files_def
  dst_exists_def

lemma map_of_modify:
  "map_of (map (\<lambda>e. if fst e = x then (fst e, F (snd e)) else e) es) y
   = (if y = x then map_option F (map_of es x) else map_of es y)"
  by (induction es) auto

lemma lookup_modify_at:
  "lookup (modify_at p f t) (p @ q) = (case lookup t p of None \<Rightarrow> None | Some n \<Rightarrow> lookup (f n) q)"
proof (induction p arbitrary: t)
  case Nil
  then show ?case by simp
next
  case (Cons x xs)
  show ?case
  proof (cases t)
    case (File c)
    then show ?thesis by simp
  next
    case (Dir es)
    then show ?thesis using Cons
      by (cases "map_of es x") (simp_all add: map_of_modify)
  qed
qed

lemma map_of_filter_neq:
  "map_of (filter (\<lambda>e. fst e \<noteq> x) es) y = (if y = x then None else map_of es y)"
  by (induction es) auto

lemma isdir_child:
  "isdir t (c @ [x]) \<Longrightarrow> \<exists>es ds. lookup t c = Some (Dir es) \<and> map_of es x = Some (Dir ds)"
proof (induction c arbitrary: t)
  case Nil
  then show ?case
    by (cases t) (auto simp: isdir_def split: option.splits fsnode.splits)
next
  case (Cons z c)
  show ?case
  proof (cases t)
    case (File s)
    with Cons(2) show ?thesis by (simp add: isdir_def)
  next
    case (Dir es0)
    with Cons(2) obtain m where m: "map_of es0 z = Some m" "isdir m (c @ [x])"
      by (auto simp: isdir_def split: option.splits)
    from Cons(1)[OF m(2)] show ?thesis using Dir m(1) by simp
  qed
qed

lemma lookup_child:
  "lookup t (c @ [y]) = (case lookup t c of Some (Dir es) \<Rightarrow> map_of es y | _ \<Rightarrow> None)"
proof (induction c arbitrary: t)
  case Nil
  then show ?case by (cases t) (auto split: option.splits)
next
  case (Cons z c)
  then show ?case by (cases t) (auto split: option.splits)
qed

lemma lookup_append:
  "lookup t (p @ q) = (case lookup t p of None \<Rightarrow> None | Some n \<Rightarrow> lookup n q)"
proof (induction p arbitrary: t)
  case Nil
  then show ?case by simp
next
  case (Cons x p)
  then show ?case by (cases t) (auto split: option.splits)
qed

text \<open>
  When nothing below a path is refused, \<open>rm_node\<close> removes the entry, and \<open>rmtree\<close> on a
  path that is no symbolic link removes a directory with all it holds.
\<close>

lemma rm_node_all:
  "(\<forall>q. \<not> fails (p @ q)) \<Longrightarrow> rm_node islink fails p n = None"
proof (induction islink fails p n rule: rm_node.induct)
  case (1 islink fails p c)
  from 1[rule_format, of "[]"] show ?case by simp
next
  case (2 islink fails p es)
  from 2(2)[rule_format, of "[]"] have np: "\<not> fails p" by simp
  show ?case
  proof (cases "islink p")
    case True
    with np show ?thesis by simp
  next
    case False
    have "\<forall>e\<in>set es. rm_node islink fails (p @ [fst e]) (snd e) = None"
    proof
      fix e assume e: "e \<in> set es"
      have "\<forall>q. \<not> fails ((p @ [fst e]) @ q)"
        using 2(2) by (metis append.assoc)
      from 2(1)[OF False e this] show "rm_node islink fails (p @ [fst e]) (snd e) = None" .
    qed
    then have "concat (map (\<lambda>e. case rm_node islink fails (p @ [fst e]) (snd e) of
                                   None \<Rightarrow> [] | Some n \<Rightarrow> [(fst e, n)]) es) = []"
      by (induction es) auto
    with False np show ?thesis by (simp add: Let_def)
  qed
qed

lemma rmtree_removes:
  assumes "p \<noteq> []" "\<not> islink p" "\<forall>q. \<not> fails (p @ q)"
  shows "rmtree islink fails p t =
           (if isdir t p then modify_at (butlast p) (remove_entry (last p)) t else t)"
proof -
  from assms(3) have r: "rm_node islink fails p n = None" for n by (rule rm_node_all)
  show ?thesis
  proof (cases "lookup t p")
    case None
    with assms show ?thesis by (simp add: rmtree_def isdir_def)
  next
    case (Some n)
    with assms r show ?thesis
      by (cases n) (simp_all add: rmtree_def isdir_def del: rm_node.simps)
  qed
qed

lemma rmtree_not_dir: "\<not> isdir t p \<Longrightarrow> rmtree islink fails p t = t"
  by (auto simp: rmtree_def isdir_def split: option.splits fsnode.splits)

lemma modify_at_append: "modify_at (p @ q) f t = modify_at p (modify_at q f) t"
proof (induction p arbitrary: t)
  case Nil
  then show ?case by simp
next
  case (Cons x p)
  then show ?case by (cases t) simp_all
qed

text \<open>
  Whatever \<open>rmtree\<close> does to one entry of a directory, the other entries stay as they
  were, and so does the directory.
\<close>

lemma lookup_modify_child_other:
  assumes "y \<noteq> x"
  shows "lookup (modify_at (c @ [x]) f t) (c @ [y]) = lookup t (c @ [y])"
proof -
  have "lookup (modify_at (c @ [x]) f t) (c @ [y])
        = (case lookup t c of None \<Rightarrow> None | Some n \<Rightarrow> lookup (modify_at [x] f n) [y])"
    by (simp add: modify_at_append lookup_modify_at)
  also have "\<dots> = (case lookup t c of None \<Rightarrow> None | Some n \<Rightarrow> lookup n [y])"
  proof (cases "lookup t c")
    case None
    then show ?thesis by simp
  next
    case (Some n)
    with assms show ?thesis by (cases n) (simp_all add: map_of_modify)
  qed
  finally show ?thesis by (simp add: lookup_append)
qed

lemma lookup_remove_child_other:
  assumes "y \<noteq> x"
  shows "lookup (modify_at c (remove_entry x) t) (c @ [y]) = lookup t (c @ [y])"
proof -
  have "lookup (modify_at c (remove_entry x) t) (c @ [y])
        = (case lookup t c of None \<Rightarrow> None | Some n \<Rightarrow> lookup (remove_entry x n) [y])"
    by (simp add: lookup_modify_at)
  also have "\<dots> = (case lookup t c of None \<Rightarrow> None | Some n \<Rightarrow> lookup n [y])"
  proof (cases "lookup t c")
    case None
    then show ?thesis by simp
  next
    case (Some n)
    with assms show ?thesis by (cases n) (simp_all add: map_of_filter_neq)
  qed
  finally show ?thesis by (simp add: lookup_append)
qed

lemma lookup_rmtree_other:
  assumes "y \<noteq> x"
  shows "lookup (rmtree islink fails (c @ [x]) t) (c @ [y]) = lookup t (c @ [y])"
  using assms
  by (simp add: rmtree_def lookup_modify_child_other lookup_remove_child_other
           split: option.splits fsnode.splits)

lemma lookup_rmtree_removed:
  assumes "\<not> islink (c @ [x])" "\<forall>q. \<not> fails ((c @ [x]) @ q)"
  shows "lookup (rmtree islink fails (c @ [x]) t) (c @ [x])
         = (if isdir t (c @ [x]) then None else lookup t (c @ [x]))"
proof (cases "isdir t (c @ [x])")
  case False
  then show ?thesis by (simp add: rmtree_not_dir)
next
  case True
  from isdir_child[OF True] obtain es ds where
    es: "lookup t c = Some (Dir es)" "map_of es x = Some (Dir ds)" by blast
  have "rmtree islink fails (c @ [x]) t = modify_at c (remove_entry x) t"
    using rmtree_removes[of "c @ [x]" islink fails t] assms True by simp
  then have "lookup (rmtree islink fails (c @ [x]) t) (c @ [x]) = lookup (remove_entry x (Dir es)) [x]"
    using es(1) lookup_modify_at[of c "remove_entry x" t "[x]"] by simp
  also have "\<dots> = None"
    by (simp add: map_of_filter_neq)
  finally show ?thesis using True by simp
qed

lemma lookup_rmtree_parent:
  assumes "isdir t c"
  shows "isdir (rmtree islink fails (c @ [x]) t) c"
proof -
  from assms obtain es where es: "lookup t c = Some (Dir es)"
    by (auto simp: isdir_def split: option.splits fsnode.splits)
  have a: "isdir (modify_at c (remove_entry x) t) c"
    using es lookup_modify_at[of c "remove_entry x" t "[]"] by (simp add: isdir_def)
  have b: "isdir (modify_at (c @ [x]) f t) c" for f
    using es lookup_modify_at[of c "modify_at [x] f" t "[]"]
    by (simp add: isdir_def modify_at_append)
  from a b assms show ?thesis
    by (simp add: rmtree_def split: option.splits fsnode.splits)
qed

lemma lookup_foldl_rmtree_not_dir:
  "\<not> isdir t (c @ [y]) \<Longrightarrow>
   lookup (foldl (\<lambda>f cdir. rmtree islink fails (c @ cdir) f) t (map (\<lambda>x. [x]) xs)) (c @ [y])
   = lookup t (c @ [y])"
proof (induction xs arbitrary: t)
  case Nil
  then show ?case by simp
next
  case (Cons x xs)
  have l: "lookup (rmtree islink fails (c @ [x]) t) (c @ [y]) = lookup t (c @ [y])"
  proof (cases "y = x")
    case True
    with Cons(2) show ?thesis by (simp add: rmtree_not_dir)
  next
    case False
    then show ?thesis by (rule lookup_rmtree_other)
  qed
  with Cons(2) have "\<not> isdir (rmtree islink fails (c @ [x]) t) (c @ [y])"
    by (simp add: isdir_def)
  from Cons(1)[OF this] l show ?case by simp
qed

lemma lookup_foldl_rmtree:
  assumes "y \<in> set xs" "\<not> islink (c @ [y])" "\<forall>q. \<not> fails ((c @ [y]) @ q)"
  shows "lookup (foldl (\<lambda>f cdir. rmtree islink fails (c @ cdir) f) t (map (\<lambda>x. [x]) xs)) (c @ [y])
         = (if isdir t (c @ [y]) then None else lookup t (c @ [y]))"
  using assms(1)
proof (induction xs arbitrary: t)
  case Nil
  then show ?case by simp
next
  case (Cons x xs)
  let ?t' = "rmtree islink fails (c @ [x]) t"
  show ?case
  proof (cases "y = x")
    case True
    have l: "lookup ?t' (c @ [y]) = (if isdir t (c @ [y]) then None else lookup t (c @ [y]))"
      using lookup_rmtree_removed[of islink c y fails t] assms(2,3) True by simp
    then have "\<not> isdir ?t' (c @ [y])"
      by (auto simp: isdir_def split: if_splits)
    from lookup_foldl_rmtree_not_dir[OF this, of islink fails xs] l show ?thesis by simp
  next
    case False
    with Cons(2) have y: "y \<in> set xs" by simp
    have l: "lookup ?t' (c @ [y]) = lookup t (c @ [y])"
      using False by (rule lookup_rmtree_other)
    then have "isdir ?t' (c @ [y]) = isdir t (c @ [y])" by (simp add: isdir_def)
    with Cons(1)[OF y, of ?t'] l show ?thesis by simp
  qed
qed

lemma map_of_set_entry_list:
  "map_of (set_entry_list x n es) y = (if y = x then Some n else map_of es y)"
  by (induction es) auto

text \<open>
Creating a missing entry of an existing directory.
\<close>

lemma makedirs_child:
  assumes "isdir t c" "\<not> exists t (c @ [x])"
  shows "\<exists>t'. makedirs (c @ [x]) t = Inr t' \<and> isdir t' c \<and>
           (\<forall>y. lookup t' (c @ [y]) = (if y = x then Some (Dir []) else lookup t (c @ [y])))"
  using assms
proof (induction c arbitrary: t)
  case Nil
  then obtain es where t: "t = Dir es" by (cases t) (auto simp: isdir_def)
  with Nil(2) have "map_of es x = None" by (auto simp: exists_def split: option.splits)
  then show ?case using t by (auto simp: isdir_def map_add_def split: option.splits)
next
  case (Cons z c)
  from Cons(2) obtain es0 m where t: "t = Dir es0" "map_of es0 z = Some m" "isdir m c"
    by (cases t) (auto simp: isdir_def split: option.splits)
  from Cons(3) t have "\<not> exists m (c @ [x])" by (simp add: exists_def)
  from Cons(1)[OF t(3) this] obtain m' where m': "makedirs (c @ [x]) m = Inr m'" "isdir m' c"
    "\<forall>y. lookup m' (c @ [y]) = (if y = x then Some (Dir []) else lookup m (c @ [y]))" by blast
  have "makedirs ((z # c) @ [x]) t = Inr (Dir (set_entry_list z m' es0))"
    using t m'(1) by simp
  moreover have "isdir (Dir (set_entry_list z m' es0)) (z # c)"
    using m'(2) by (simp add: isdir_def map_of_set_entry_list)
  moreover have "\<forall>y. lookup (Dir (set_entry_list z m' es0)) ((z # c) @ [y])
      = (if y = x then Some (Dir []) else lookup t ((z # c) @ [y]))"
    using m'(3) t by (simp add: map_of_set_entry_list)
  ultimately show ?case by blast
qed

section \<open>Properties of \<open>clean\<close>\<close>

text \<open>
  Claim C10: \<open>clean\<close> in mode \<open>skip\<close> returns at once; whatever additional
  directories it is given, it raises nothing and the file system is the one it was
  given.
\<close>

theorem clean_skip_unchanged:
  "clean h ''skip'' additional_dirs fs = Inr fs"
  by (simp add: clean_def)

text \<open>
  A name in the working directory can be removed when it is no symbolic link and the
  operating system refuses nothing at or below it.
\<close>

lemma clean_std:
  "\<exists>t'. clean h ''std'' [[''build''], [''FAI_python.egg-info''], [''dist'']] t = Inr t' \<and>
     (\<forall>y\<in>set [''generated'', ''FAI_python'', ''build'', ''FAI_python.egg-info'', ''dist''].
        \<not> os_path_islink h (os_getcwd h @ [y]) \<and>
        (\<forall>q. \<not> os_remove_fails h ((os_getcwd h @ [y]) @ q)) \<longrightarrow>
        lookup t' (os_getcwd h @ [y])
        = (if isdir t (os_getcwd h @ [y]) then None else lookup t (os_getcwd h @ [y])))"
proof -
  let ?xs = "[''generated'', ''FAI_python'', ''build'', ''FAI_python.egg-info'', ''dist'']"
  let ?t' = "foldl (\<lambda>f cdir. rmtree (os_path_islink h) (os_remove_fails h) (os_getcwd h @ cdir) f) t
               (map (\<lambda>x. [x]) ?xs)"
  have "clean h ''std'' [[''build''], [''FAI_python.egg-info''], [''dist'']] t = Inr ?t'"
    by (simp add: clean_def GeneratedDir_def PackageDir_def)
  moreover have "\<forall>y\<in>set ?xs.
        \<not> os_path_islink h (os_getcwd h @ [y]) \<and>
        (\<forall>q. \<not> os_remove_fails h ((os_getcwd h @ [y]) @ q)) \<longrightarrow>
        lookup ?t' (os_getcwd h @ [y])
        = (if isdir t (os_getcwd h @ [y]) then None else lookup t (os_getcwd h @ [y]))"
  proof (intro ballI impI)
    fix y assume y: "y \<in> set ?xs"
      and r: "\<not> os_path_islink h (os_getcwd h @ [y]) \<and>
              (\<forall>q. \<not> os_remove_fails h ((os_getcwd h @ [y]) @ q))"
    from r have r1: "\<not> os_path_islink h (os_getcwd h @ [y])"
      and r2: "\<forall>q. \<not> os_remove_fails h ((os_getcwd h @ [y]) @ q)" by blast+
    from lookup_foldl_rmtree[of y ?xs "os_path_islink h" "os_getcwd h" "os_remove_fails h" t] y r1 r2
    show "lookup ?t' (os_getcwd h @ [y])
        = (if isdir t (os_getcwd h @ [y]) then None else lookup t (os_getcwd h @ [y]))"
      by blast
  qed
  ultimately show ?thesis by blast
qed

lemma clean_keep:
  assumes "isdir t (os_getcwd h)"
    and "\<not> isfile t (os_getcwd h @ GeneratedDir)" "\<not> isfile t (os_getcwd h @ PackageDir)"
    and "\<not> os_path_islink h (os_getcwd h @ GeneratedDir)"
        "\<forall>q. \<not> os_remove_fails h ((os_getcwd h @ GeneratedDir) @ q)"
    and "\<not> os_path_islink h (os_getcwd h @ PackageDir)"
        "\<forall>q. \<not> os_remove_fails h ((os_getcwd h @ PackageDir) @ q)"
  shows "\<exists>t'. clean h ''keep'' [] t = Inr t' \<and> lookup t' (os_getcwd h @ GeneratedDir) = Some (Dir [])
          \<and> lookup t' (os_getcwd h @ PackageDir) = Some (Dir [])"
proof -
  let ?c = "os_getcwd h"
  let ?rm = "rmtree (os_path_islink h) (os_remove_fails h)"
  define t1 where "t1 = ?rm (?c @ [''generated'']) t"
  define t2 where "t2 = ?rm (?c @ [''FAI_python'']) t1"
  have d2: "isdir t2 ?c"
    unfolding t2_def t1_def by (intro lookup_rmtree_parent assms(1))
  have g1: "lookup t1 (?c @ [''generated'']) = None"
    using lookup_rmtree_removed[of "os_path_islink h" ?c "''generated''" "os_remove_fails h" t]
      assms(2,4,5) unfolding t1_def
    by (auto simp: isdir_def isfile_def GeneratedDir_def split: option.splits fsnode.splits)
  have g2: "lookup t2 (?c @ [''generated'']) = None"
    using g1 lookup_rmtree_other[of "''generated''" "''FAI_python''" "os_path_islink h"
      "os_remove_fails h" ?c t1] unfolding t2_def by simp
  have p1: "lookup t1 (?c @ [''FAI_python'']) = lookup t (?c @ [''FAI_python''])"
    using lookup_rmtree_other[of "''FAI_python''" "''generated''" "os_path_islink h"
      "os_remove_fails h" ?c t] unfolding t1_def by simp
  have p2: "lookup t2 (?c @ [''FAI_python'']) = None"
    using lookup_rmtree_removed[of "os_path_islink h" ?c "''FAI_python''" "os_remove_fails h" t1]
      assms(3,6,7) p1 unfolding t2_def
    by (auto simp: isdir_def isfile_def PackageDir_def split: option.splits fsnode.splits)
  from g2 have "\<not> exists t2 (?c @ [''generated''])" by (simp add: exists_def)
  from makedirs_child[OF d2 this] obtain t3 where t3: "makedirs (?c @ [''generated'']) t2 = Inr t3"
    "isdir t3 ?c"
    "\<forall>y. lookup t3 (?c @ [y]) = (if y = ''generated'' then Some (Dir []) else lookup t2 (?c @ [y]))"
    by blast
  from t3(3) p2 have "\<not> exists t3 (?c @ [''FAI_python''])" by (simp add: exists_def)
  from makedirs_child[OF t3(2) this] obtain t4 where t4: "makedirs (?c @ [''FAI_python'']) t3 = Inr t4"
    "\<forall>y. lookup t4 (?c @ [y]) = (if y = ''FAI_python'' then Some (Dir []) else lookup t3 (?c @ [y]))"
    by blast
  have "clean h ''keep'' [] t = Inr t4"
    using t3(1) t4(1) by (simp add: clean_def GeneratedDir_def PackageDir_def t2_def t1_def)
  moreover have "lookup t4 (?c @ GeneratedDir) = Some (Dir [])"
    using t4(2) t3(3) by (simp add: GeneratedDir_def)
  moreover have "lookup t4 (?c @ PackageDir) = Some (Dir [])"
    using t4(2) by (simp add: PackageDir_def)
  ultimately show ?thesis by blast
qed

lemma get_git_version_decoded:
  "res \<noteq> ProcUnicodeDecodeError \<Longrightarrow> \<exists>v. get_git_version res now = Inr v"
  by (cases res) (simp_all add: Let_def split: option.splits)

text \<open>
  Claim C5, as the code has it. The clean branch is reached only after
  \<open>BuildSupport.make()\<close> has built a profile and \<open>git describe\<close> has been read for the
  default of \<open>--pp-version\<close>. When both went well (the output of git could be decoded)
  and \<open>clean\<close> is among the arguments left to the packaging tool, the script ends with
  \<open>sys.exit(0)\<close>; the only steps of the run are the debug configuration (if asked for)
  and the cleaning; no code generation, staging or packaging takes place. Afterwards
  each of \<open>generated\<close>, \<open>FAI_python\<close>, \<open>build\<close>, \<open>FAI_python.egg-info\<close>, \<open>dist\<close> in the
  working directory that is no symbolic link, and at or below which the operating system
  refuses no removal, is no directory any more, and does not exist at all unless it was a
  regular file before (on which \<open>rmtree\<close> fails, the error being ignored).
  \<open>clean\<close> in mode \<open>keep\<close>, run in an existing working directory in which \<open>generated\<close>
  and \<open>FAI_python\<close> can be removed in this sense and neither is a regular file, leaves
  the two as empty directories.
\<close>

theorem clean_command:
  "(make h [] = (Inr (Some bs0), cl) \<and>
    subprocess_check_output h [''git'', ''describe'', ''--tags'', ''--dirty''] \<noteq> ProcUnicodeDecodeError \<and>
    ''clean'' \<in> set remainder \<longrightarrow>
      (\<exists>f'. script h t a remainder packages f =
               (Exit 0, \<lparr>w_fs = f', w_calls = cl @ [[''git'', ''describe'', ''--tags'', ''--dirty'']],
                         w_steps = (if pp_debug a then [UseDebugConfiguration] else [])
                                     @ [Clean ''std'']\<rparr>) \<and>
             (\<forall>d\<in>set [GeneratedDir, PackageDir, [''build''], [''FAI_python.egg-info''], [''dist'']].
                \<not> os_path_islink h (os_getcwd h @ d) \<and>
                (\<forall>q. \<not> os_remove_fails h ((os_getcwd h @ d) @ q)) \<longrightarrow>
                \<not> isdir f' (os_getcwd h @ d) \<and>
                (\<not> isfile f (os_getcwd h @ d) \<longrightarrow> \<not> exists f' (os_getcwd h @ d))))) \<and>
   (isdir f2 (os_getcwd h2) \<and>
    \<not> isfile f2 (os_getcwd h2 @ GeneratedDir) \<and> \<not> isfile f2 (os_getcwd h2 @ PackageDir) \<and>
    \<not> os_path_islink h2 (os_getcwd h2 @ GeneratedDir) \<and>
    (\<forall>q. \<not> os_remove_fails h2 ((os_getcwd h2 @ GeneratedDir) @ q)) \<and>
    \<not> os_path_islink h2 (os_getcwd h2 @ PackageDir) \<and>
    (\<forall>q. \<not> os_remove_fails h2 ((os_getcwd h2 @ PackageDir) @ q)) \<longrightarrow>
      (\<exists>f'. clean h2 ''keep'' [] f2 = Inr f' \<and>
             lookup f' (os_getcwd h2 @ GeneratedDir) = Some (Dir []) \<and>
             lookup f' (os_getcwd h2 @ PackageDir) = Some (Dir [])))"
proof (intro conjI impI)
  let ?git = "[''git'', ''describe'', ''--tags'', ''--dirty'']"
  assume a: "make h [] = (Inr (Some bs0), cl) \<and>
    subprocess_check_output h ?git \<noteq> ProcUnicodeDecodeError \<and> ''clean'' \<in> set remainder"
  from clean_std[of h f]
  obtain f' where f': "clean h ''std'' [[''build''], [''FAI_python.egg-info''], [''dist'']] f = Inr f'"
    "\<forall>y\<in>set [''generated'', ''FAI_python'', ''build'', ''FAI_python.egg-info'', ''dist''].
        \<not> os_path_islink h (os_getcwd h @ [y]) \<and>
        (\<forall>q. \<not> os_remove_fails h ((os_getcwd h @ [y]) @ q)) \<longrightarrow>
        lookup f' (os_getcwd h @ [y])
        = (if isdir f (os_getcwd h @ [y]) then None else lookup f (os_getcwd h @ [y]))"
    by blast
  from make_Some_BinPath a obtain d where d: "BinPath h = Inr d" by blast
  from get_git_version_decoded a obtain v where
    v: "get_git_version (subprocess_check_output h ?git) (datetime_now h) = Inr v" by blast
  have run: "script h t a remainder packages f =
               (Exit 0, \<lparr>w_fs = f', w_calls = cl @ [?git],
                         w_steps = (if pp_debug a then [UseDebugConfiguration] else [])
                                     @ [Clean ''std'']\<rparr>)"
    using a d v f'(1) by (simp add: script_def main_def Let_def)
  have props: "\<forall>d\<in>set [GeneratedDir, PackageDir, [''build''], [''FAI_python.egg-info''], [''dist'']].
                \<not> os_path_islink h (os_getcwd h @ d) \<and>
                (\<forall>q. \<not> os_remove_fails h ((os_getcwd h @ d) @ q)) \<longrightarrow>
                \<not> isdir f' (os_getcwd h @ d) \<and>
                (\<not> isfile f (os_getcwd h @ d) \<longrightarrow> \<not> exists f' (os_getcwd h @ d))"
  proof (intro ballI impI)
    fix d0 assume d0: "d0 \<in> set [GeneratedDir, PackageDir, [''build''], [''FAI_python.egg-info''], [''dist'']]"
      and r: "\<not> os_path_islink h (os_getcwd h @ d0) \<and>
              (\<forall>q. \<not> os_remove_fails h ((os_getcwd h @ d0) @ q))"
    from d0 obtain y where y: "d0 = [y]"
      "y \<in> set [''generated'', ''FAI_python'', ''build'', ''FAI_python.egg-info'', ''dist'']"
      by (auto simp: GeneratedDir_def PackageDir_def)
    from f'(2) y(2) r have "lookup f' (os_getcwd h @ [y])
        = (if isdir f (os_getcwd h @ [y]) then None else lookup f (os_getcwd h @ [y]))"
      unfolding y(1) by blast
    then show "\<not> isdir f' (os_getcwd h @ d0) \<and>
                (\<not> isfile f (os_getcwd h @ d0) \<longrightarrow> \<not> exists f' (os_getcwd h @ d0))"
      unfolding y(1)
      by (auto simp: isdir_def isfile_def exists_def split: option.splits fsnode.splits if_splits)
  qed
  from run props show "\<exists>f'. script h t a remainder packages f =
               (Exit 0, \<lparr>w_fs = f', w_calls = cl @ [?git],
                         w_steps = (if pp_debug a then [UseDebugConfiguration] else [])
                                     @ [Clean ''std'']\<rparr>) \<and>
             (\<forall>d\<in>set [GeneratedDir, PackageDir, [''build''], [''FAI_python.egg-info''], [''dist'']].
                \<not> os_path_islink h (os_getcwd h @ d) \<and>
                (\<forall>q. \<not> os_remove_fails h ((os_getcwd h @ d) @ q)) \<longrightarrow>
                \<not> isdir f' (os_getcwd h @ d) \<and>
                (\<not> isfile f (os_getcwd h @ d) \<longrightarrow> \<not> exists f' (os_getcwd h @ d)))"
    by blast
next
  assume "isdir f2 (os_getcwd h2) \<and>
    \<not> isfile f2 (os_getcwd h2 @ GeneratedDir) \<and> \<not> isfile f2 (os_getcwd h2 @ PackageDir) \<and>
    \<not> os_path_islink h2 (os_getcwd h2 @ GeneratedDir) \<and>
    (\<forall>q. \<not> os_remove_fails h2 ((os_getcwd h2 @ GeneratedDir) @ q)) \<and>
    \<not> os_path_islink h2 (os_getcwd h2 @ PackageDir) \<and>
    (\<forall>q. \<not> os_remove_fails h2 ((os_getcwd h2 @ PackageDir) @ q))"
  then show "\<exists>f'. clean h2 ''keep'' [] f2 = Inr f' \<and>
             lookup f' (os_getcwd h2 @ GeneratedDir) = Some (Dir []) \<and>
             lookup f' (os_getcwd h2 @ PackageDir) = Some (Dir [])"
    using clean_keep[of f2 h2] by blast
qed

theorem clean_command_witness:
  "make sample_linux_host [] = (Inr (Some sample_linux_profile), [[''/usr/bin/swig'', ''-version'']]) \<and>
   subprocess_check_output sample_linux_host [''git'', ''describe'', ''--tags'', ''--dirty'']
     \<noteq> ProcUnicodeDecodeError \<and>
   ''clean'' \<in> set [''clean''] \<and>
   (\<exists>f'. script sample_linux_host sample_tools sample_args [''clean''] RuntimeDefaultDeploy
            sample_linux_fs =
            (Exit 0, \<lparr>w_fs = f',
                       w_calls = [[''/usr/bin/swig'', ''-version''],
                                  [''git'', ''describe'', ''--tags'', ''--dirty'']],
                       w_steps = [UseDebugConfiguration, Clean ''std'']\<rparr>) \<and>
          \<not> exists f' [''work'', ''generated''] \<and> \<not> exists f' [''work'', ''FAI_python''] \<and>
          \<not> exists f' [''work'', ''build''] \<and> \<not> exists f' [''work'', ''FAI_python.egg-info''] \<and>
          \<not> exists f' [''work'', ''dist'']) \<and>
   isdir sample_linux_fs [''work''] \<and>
   \<not> isfile sample_linux_fs ([''work''] @ GeneratedDir) \<and>
   \<not> isfile sample_linux_fs ([''work''] @ PackageDir) \<and>
   (\<exists>f'. clean sample_linux_host ''keep'' [] sample_linux_fs = Inr f' \<and>
          lookup f' [''work'', ''generated''] = Some (Dir []) \<and>
          lookup f' [''work'', ''FAI_python''] = Some (Dir []))"
proof -
  have dirs: "isdir sample_linux_fs [''work'']"
    "\<not> isfile sample_linux_fs ([''work''] @ GeneratedDir)"
    "\<not> isfile sample_linux_fs ([''work''] @ PackageDir)"
    "\<not> isfile sample_linux_fs [''work'', ''build'']"
    "\<not> isfile sample_linux_fs [''work'', ''FAI_python.egg-info'']"
    "\<not> isfile sample_linux_fs [''work'', ''dist'']"
    by (simp_all add: isdir_def isfile_def sample_linux_fs_def GeneratedDir_def PackageDir_def)
  have cwd: "os_getcwd sample_linux_host = [''work'']" "pp_debug sample_args"
    "os_path_islink sample_linux_host = (\<lambda>p. False)"
    "os_remove_fails sample_linux_host = (\<lambda>p. False)"
    "subprocess_check_output sample_linux_host [''git'', ''describe'', ''--tags'', ''--dirty'']
       \<noteq> ProcUnicodeDecodeError"
    by (simp_all add: sample_linux_host_def sample_args_def sample_check_output_def)
  note t = clean_command[of sample_linux_host sample_linux_profile "[[''/usr/bin/swig'', ''-version'']]"
      "[''clean'']" sample_tools sample_args RuntimeDefaultDeploy sample_linux_fs
      sample_linux_fs sample_linux_host]
  from t sample_linux_make dirs cwd show ?thesis
    by (simp add: GeneratedDir_def PackageDir_def, blast)
qed

text \<open>
  Claim C5 as stated fails on a host on which \<open>BuildSupport.make()\<close> raises: on a Linux
  machine without the code generator, the script called with \<open>clean\<close> ends with
  \<open>RuntimeError\<close> (exit status 1) before any step, and \<open>generated\<close>, \<open>FAI_python\<close> and
  \<open>build\<close> are still there.
\<close>

theorem clean_command_without_swig_counterexample:
  "script (sample_linux_host\<lparr>shutil_which := (\<lambda>c. None)\<rparr>) sample_tools sample_args [''clean'']
     RuntimeDefaultDeploy sample_linux_fs
   = (Raised RuntimeError, \<lparr>w_fs = sample_linux_fs, w_calls = [], w_steps = []\<rparr>) \<and>
   exit_status (Raised RuntimeError) = 1 \<and>
   isdir sample_linux_fs [''work'', ''generated''] \<and>
   isdir sample_linux_fs [''work'', ''FAI_python''] \<and>
   isdir sample_linux_fs [''work'', ''build'']"
  by (simp add: script_def main_def make_def BuildSupportLinux_init_def find_swig_def
        BinPath_def BinPath_table_def get_platform_def get_machinewidth_def exit_status_def
        sample_linux_host_def isdir_def sample_linux_fs_def)

section \<open>Properties of the package data\<close>








section \<open>Properties of runtime staging\<close>

text \<open>
  The loop over the entries of one subsystem, on a small tree, with either variant of
  the test: the destination is created, the two files that match the pattern are copied
  into it, the third file is not.
\<close>

lemma copy_files_example:
  "copy_files normalised [''sdk''] [''pkg''] [(''foo.so.*'', [])]
     (Dir [(''sdk'', Dir [(''foo.so.1'', File ''a''), (''foo.so.2'', File ''b''),
                          (''bar.txt'', File ''c'')])])
   = (None,
      Dir [(''sdk'', Dir [(''foo.so.1'', File ''a''), (''foo.so.2'', File ''b''),
                          (''bar.txt'', File ''c'')]),
           (''pkg'', Dir [(''foo.so.1'', File ''a''), (''foo.so.2'', File ''b'')])])"
  by (cases normalised) (simp_all add: fs_eval)

text \<open>
  When the package directory is a regular file, the loop of \<open>BuildSupport.copy_runtime\<close>
  finds that the path with the separator at its end does not exist, and \<open>os.makedirs\<close>
  raises \<open>FileExistsError\<close>; the loop of \<open>BuildSupportLinux.copy_runtime\<close> finds that the
  path exists and copies onto the file.
\<close>

lemma copy_files_onto_file:
  "copy_files False [''sdk''] [''pkg''] [(''foo.so.*'', [])]
     (Dir [(''sdk'', Dir [(''foo.so.1'', File ''a'')]), (''pkg'', File ''p'')])
   = (Some FileExistsError,
      Dir [(''sdk'', Dir [(''foo.so.1'', File ''a'')]), (''pkg'', File ''p'')])"
  "copy_files True [''sdk''] [''pkg''] [(''foo.so.*'', [])]
     (Dir [(''sdk'', Dir [(''foo.so.1'', File ''a'')]), (''pkg'', File ''p'')])
   = (None,
      Dir [(''sdk'', Dir [(''foo.so.1'', File ''a'')]), (''pkg'', File ''a'')])"
  by (simp_all add: fs_eval)

text \<open>
  The manifest of the Linux profile has no entry for \<open>libDemosaic\<close>, a member of the
  default-deploy set; the manifest of the Windows profile has an entry for every
  member. So \<open>BuildSupportLinux.copy_runtime\<close> never returns normally, whatever the
  order in which the loop meets the members of the set.
\<close>

lemma Linux_manifest_keys:
  "map_of Linux_RuntimeFiles ''libDemosaic'' = None"
  by (simp add: Linux_RuntimeFiles_def)

lemma Windows_manifest_keys:
  "list_all (\<lambda>package. map_of Windows_RuntimeFiles package \<noteq> None) RuntimeDefaultDeploy"
  by (simp add: Windows_RuntimeFiles_def RuntimeDefaultDeploy_def)

lemma Linux_copy_packages_raises:
  assumes "''libDemosaic'' \<in> set packages"
  shows "fst (Linux_copy_packages Linux_RuntimeFiles runtime_dir package_dir packages fs) \<noteq> None"
  using assms
proof (induction packages arbitrary: fs)
  case Nil
  then show ?case by simp
next
  case (Cons p packages)
  show ?case
  proof (cases "map_of Linux_RuntimeFiles p")
    case None
    then show ?thesis by simp
  next
    case (Some entries)
    with Linux_manifest_keys have "p \<noteq> ''libDemosaic''" by auto
    with Cons(2) have in_rest: "''libDemosaic'' \<in> set packages" by simp
    obtain e fs1 where c: "copy_files True runtime_dir package_dir entries fs = (e, fs1)"
      by (cases "copy_files True runtime_dir package_dir entries fs") auto
    show ?thesis
    proof (cases e)
      case None
      with Some c Cons(1)[OF in_rest, of fs1] show ?thesis by simp
    next
      case (Some err)
      with \<open>map_of Linux_RuntimeFiles p = Some entries\<close> c show ?thesis by simp
    qed
  qed
qed

text \<open>
  Claim C7 fails on Linux. On the sample tree the pattern \<open>libfacamera.so.*\<close> of the
  subsystem \<open>base\<close> matches a file of the runtime directory. When the loop meets
  \<open>libDemosaic\<close> first, \<open>copy_runtime\<close> raises \<open>KeyError\<close> and leaves the file system
  as it was: the file is not copied. When the loop meets \<open>libDemosaic\<close> last,
  \<open>copy_runtime\<close> raises \<open>KeyError\<close> all the same.
\<close>

theorem Linux_copy_runtime_KeyError:
  "glob [''opt'', ''sdk'', ''lib''] ''libfacamera.so.*'' sample_linux_fs
     = [[''opt'', ''sdk'', ''lib'', ''libfacamera.so.1'']] \<and>
   BuildSupportLinux_copy_runtime sample_linux_host sample_linux_profile
     [''libDemosaic'', ''base'', ''genicam'', ''libpol''] sample_linux_fs
     = (Some KeyError, sample_linux_fs) \<and>
   lookup sample_linux_fs [''work'', ''FAI_python'', ''libfacamera.so.1''] = None \<and>
   fst (BuildSupportLinux_copy_runtime sample_linux_host sample_linux_profile
          [''base'', ''genicam'', ''libpol'', ''libDemosaic''] sample_linux_fs)
     = Some KeyError"
  by (simp add: BuildSupportLinux_copy_runtime_def sample_linux_profile_def sample_linux_host_def
        sample_linux_fs_def Linux_RuntimeFiles_def PackageDir_def fs_eval)

section \<open>Properties of the debug configuration\<close>

lemma call_swig_flags:
  assumes "call_swig h t bs source version skip f = (r, bs', f')"
  shows "ExtraCompileArgs bs' = ExtraCompileArgs bs \<and> ExtraLinkArgs bs' = ExtraLinkArgs bs"
  using assms
  by (auto simp: call_swig_def Let_def split: if_splits sum.splits)

lemma steps_use_append:
  "steps_use c l v (xs @ ys) = (steps_use c l v xs \<and> steps_use c l v ys)"
  by (auto simp: steps_use_def)

lemma steps_use_Cons:
  "steps_use c l v (s # ss) =
     ((case s of MakeExtension ext \<Rightarrow> extra_compile_args ext = c \<and> extra_link_args ext = l
               | Setup sa \<Rightarrow> setup_version sa = v | _ \<Rightarrow> True) \<and> steps_use c l v ss)"
  "steps_use c l v []"
  by (auto simp: steps_use_def)

lemma main_package_steps:
  assumes "steps_use (ExtraCompileArgs bs) (ExtraLinkArgs bs) version (w_steps w)"
  shows "steps_use (ExtraCompileArgs bs) (ExtraLinkArgs bs) version
           (w_steps (snd (main_package h t bs version a src w)))"
  using assms
  by (auto simp: main_package_def Let_def steps_use_append steps_use_def
           split: option.splits sum.splits prod.splits)

lemma main_doxygen_steps:
  assumes "steps_use c l v (w_steps w)"
  shows "steps_use c l v (w_steps (snd (main_doxygen t a w)))"
  using assms
  by (auto simp: main_doxygen_def Let_def steps_use_append steps_use_Cons split: sum.splits)

lemma main_swig_steps:
  assumes "steps_use c l v (w_steps w)"
  shows "steps_use c l v (w_steps (snd (main_swig h t bs version a packages w)))"
  using assms
  by (auto simp: main_swig_def Let_def steps_use_append steps_use_Cons
           split: sum.splits prod.splits option.splits)

lemma main_swig_flags:
  assumes "main_swig h t bs version a packages w = (Inr (src, bs'), w')"
  shows "ExtraCompileArgs bs' = ExtraCompileArgs bs \<and> ExtraLinkArgs bs' = ExtraLinkArgs bs"
  using assms
  by (auto simp: main_swig_def Let_def split: sum.splits prod.splits option.splits if_splits
           dest: call_swig_flags)

lemma main_build_steps:
  assumes ok: "steps_use (ExtraCompileArgs bs) (ExtraLinkArgs bs) version (w_steps w)"
  shows "steps_use (ExtraCompileArgs bs) (ExtraLinkArgs bs) version
           (w_steps (snd (main_build h t bs version a packages w)))"
proof -
  let ?ok = "steps_use (ExtraCompileArgs bs) (ExtraLinkArgs bs) version"
  obtain o1 w1 where d: "main_doxygen t a w = (o1, w1)" by (cases "main_doxygen t a w") auto
  have ok1: "?ok (w_steps w1)" using main_doxygen_steps[OF ok, of t a] d by simp
  show ?thesis
  proof (cases o1)
    case (Some out)
    with d ok1 show ?thesis by (simp add: main_build_def)
  next
    case None
    obtain r w2 where s: "main_swig h t bs version a packages w1 = (r, w2)"
      by (cases "main_swig h t bs version a packages w1") auto
    have ok2: "?ok (w_steps w2)" using main_swig_steps[OF ok1, of h t bs version a packages] s by simp
    show ?thesis
    proof (cases r)
      case (Inl out)
      with d None s ok2 show ?thesis by (simp add: main_build_def)
    next
      case (Inr p)
      obtain src bs' where p: "p = (src, bs')" by (cases p) auto
      from main_swig_flags[OF s[unfolded Inr p]] have fl:
        "ExtraCompileArgs bs' = ExtraCompileArgs bs" "ExtraLinkArgs bs' = ExtraLinkArgs bs" by simp_all
      have "?ok (w_steps (snd (main_package h t bs' version a (Some src) w2)))"
        using main_package_steps[of bs' version w2 h t a "Some src"] ok2 fl by simp
      with d None s Inr p show ?thesis by (simp add: main_build_def)
    qed
  qed
qed

lemma main_package_prefix:
  "\<exists>more. w_steps (snd (main_package h t bs version a src w)) = w_steps w @ more"
  by (auto simp: main_package_def Let_def split: option.splits sum.splits prod.splits)

lemma main_doxygen_prefix:
  "\<exists>more. w_steps (snd (main_doxygen t a w)) = w_steps w @ more"
  by (auto simp: main_doxygen_def Let_def split: sum.splits)

lemma main_swig_prefix:
  "\<exists>more. w_steps (snd (main_swig h t bs version a packages w)) = w_steps w @ more"
  by (auto simp: main_swig_def Let_def split: sum.splits prod.splits option.splits)

lemma main_build_prefix:
  "\<exists>more. w_steps (snd (main_build h t bs version a packages w)) = w_steps w @ more"
proof -
  obtain o1 w1 where d: "main_doxygen t a w = (o1, w1)" by (cases "main_doxygen t a w") auto
  from main_doxygen_prefix[of t a w] d obtain m1 where m1: "w_steps w1 = w_steps w @ m1" by auto
  show ?thesis
  proof (cases o1)
    case (Some out)
    with d m1 show ?thesis by (simp add: main_build_def)
  next
    case None
    obtain r w2 where s: "main_swig h t bs version a packages w1 = (r, w2)"
      by (cases "main_swig h t bs version a packages w1") auto
    from main_swig_prefix[of h t bs version a packages w1] s m1
    obtain m2 where m2: "w_steps w2 = w_steps w @ m2" by auto
    show ?thesis
    proof (cases r)
      case (Inl out)
      with d None s m2 show ?thesis by (simp add: main_build_def)
    next
      case (Inr p)
      obtain src bs' where p: "p = (src, bs')" by (cases p) auto
      from main_package_prefix[of h t bs' version a "Some src" w2] m2
      obtain m3 where "w_steps (snd (main_package h t bs' version a (Some src) w2)) = w_steps w @ m3"
        by auto
      with d None s Inr p show ?thesis by (simp add: main_build_def)
    qed
  qed
qed

lemma Linux_init_debug:
  assumes "BuildSupportLinux_init h cl = (Inr bsl, cl')"
  shows "ExtraCompileArgs (use_debug_configuration bsl)
           = filter (\<lambda>x. x \<noteq> ''-O3'' \<and> x \<noteq> ''-g0'') (ExtraCompileArgs bsl) @ [''-O0'', ''-g3'']
         \<and> ExtraLinkArgs (use_debug_configuration bsl)
           = filter (\<lambda>x. x \<noteq> ''-g0'') (ExtraLinkArgs bsl) @ [''-g3'']"
  using assms
  by (auto simp: BuildSupportLinux_init_def Let_def use_debug_configuration_def
        Linux_ExtraCompileArgs_def Linux_ExtraLinkArgs_def split: prod.splits sum.splits)

lemma debug_run:
  assumes mk: "make h [] = (Inr (Some bs0), cl)" and dbg: "pp_debug a"
    and gv: "get_git_version (subprocess_check_output h [''git'', ''describe'', ''--tags'', ''--dirty''])
               (datetime_now h) = Inr default_version"
  shows "(\<exists>rest. w_steps (snd (script h t a remainder packages f)) = UseDebugConfiguration # rest) \<and>
     steps_use (ExtraCompileArgs (use_debug_configuration bs0))
       (ExtraLinkArgs (use_debug_configuration bs0))
       ((case pp_version a of None \<Rightarrow> default_version | Some v \<Rightarrow> v) @ ''_dbg'')
       (w_steps (snd (script h t a remainder packages f)))"
proof -
  let ?git = "[''git'', ''describe'', ''--tags'', ''--dirty'']"
  let ?v = "(case pp_version a of None \<Rightarrow> default_version | Some v \<Rightarrow> v) @ ''_dbg''"
  let ?bs = "use_debug_configuration bs0"
  let ?w1 = "\<lparr>w_fs = f, w_calls = cl @ [?git], w_steps = [UseDebugConfiguration]\<rparr>"
  from make_Some_BinPath[OF mk] obtain d where d: "BinPath h = Inr d" by blast
  have ok1: "steps_use (ExtraCompileArgs ?bs) (ExtraLinkArgs ?bs) ?v (w_steps ?w1)"
    by (simp add: steps_use_Cons)
  consider (c) "''clean'' \<in> set remainder"
    | (hlp) "''clean'' \<notin> set remainder" "''-h'' \<in> set remainder \<or> ''--help'' \<in> set remainder"
    | (b) "''clean'' \<notin> set remainder" "\<not> (''-h'' \<in> set remainder \<or> ''--help'' \<in> set remainder)"
    by blast
  then show ?thesis
  proof cases
    case c
    then show ?thesis using mk dbg d gv
      by (auto simp: script_def main_def Let_def steps_use_Cons split: sum.splits)
  next
    case hlp
    then have "script h t a remainder packages f = main_package h t ?bs ?v a None ?w1"
      using mk dbg d gv by (simp add: script_def main_def Let_def)
    then show ?thesis
      using main_package_prefix[of h t ?bs ?v a None ?w1] main_package_steps[OF ok1, of h t a None]
      by auto
  next
    case b
    then have "script h t a remainder packages f = main_build h t ?bs ?v a packages ?w1"
      using mk dbg d gv by (simp add: script_def main_def Let_def)
    then show ?thesis
      using main_build_prefix[of h t ?bs ?v a packages ?w1] main_build_steps[OF ok1, of h t a packages]
      by auto
  qed
qed

lemma version_raises_run:
  assumes mk: "make h [] = (Inr (Some bs0), cl)"
    and gv: "get_git_version (subprocess_check_output h [''git'', ''describe'', ''--tags'', ''--dirty''])
               (datetime_now h) = Inl e"
  shows "script h t a remainder packages f =
           (Raised e, \<lparr>w_fs = f, w_calls = cl @ [[''git'', ''describe'', ''--tags'', ''--dirty'']],
                       w_steps = []\<rparr>)"
proof -
  from make_Some_BinPath[OF mk] obtain d where d: "BinPath h = Inr d" by blast
  with mk gv show ?thesis by (simp add: script_def main_def Let_def)
qed

text \<open>
The run of the script on the Windows sample with the debug flag, step by step.
\<close>

lemmas run_eval = script_def main_def main_build_def main_doxygen_def main_swig_def
  main_package_def call_swig_def clean_def copy_runtime_def BuildSupportWindows_copy_runtime_def
  BuildSupport_copy_runtime_def BuildSupportLinux_copy_runtime_def get_package_data_files_def
  make_def BinPath_def BinPath_table_def get_platform_def get_machinewidth_def
  BuildSupportWindows_init_def BuildSupportLinux_init_def Windows_find_swig_def
  Windows_swig_candidates_def find_swig_def base_SwigOptions_def Linux_RootDevDir_def
  use_debug_configuration_def get_swig_includes_def startswith_def splitext_root_def
  Windows_runtime_dlls_def GeneratedDir_def PackageDir_def RuntimeDefaultDeploy_def
  Windows_RuntimeFiles_def Linux_RuntimeFiles_def Windows_ExtraCompileArgs_def
  Windows_ExtraLinkArgs_def Windows_DefineMacros_def Linux_ExtraCompileArgs_def
  Linux_ExtraLinkArgs_def SwigVersions_def

lemma sample_windows_steps:
  "w_steps (snd (script sample_windows_host sample_tools sample_args [] RuntimeDefaultDeploy
                   sample_windows_fs))
   = [UseDebugConfiguration, Clean ''keep'', CallSwig, CopyRuntime,
      MakeExtension
        \<lparr>sources = [''C:/work/./generated/FAI_python_wrap.c''],
         library_dirs = [''C:/sdk/lib/x64''], libraries = [''FAI_c''],
         extra_compile_args = [''/Gy'', ''/GL'', ''/EHsc'', ''/IC:/sdk/include'', ''/permissive-'',
                               ''/Od'', ''/Zi''],
         extra_link_args = [''/OPT:REF'', ''/OPT:ICF'', ''/LTCG'', ''/DEBUG'']\<rparr>,
      Setup
        \<lparr>setup_version = ''1.2.3.dev14_dbg'',
         ext_modules =
           [\<lparr>sources = [''C:/work/./generated/FAI_python_wrap.c''],
             library_dirs = [''C:/sdk/lib/x64''], libraries = [''FAI_c''],
             extra_compile_args = [''/Gy'', ''/GL'', ''/EHsc'', ''/IC:/sdk/include'',
                                   ''/permissive-'', ''/Od'', ''/Zi''],
             extra_link_args = [''/OPT:REF'', ''/OPT:ICF'', ''/LTCG'', ''/DEBUG'']\<rparr>],
         package_data = [''*.dll'', ''*.zip'', ''*.so'', ''*.so.*'']\<rparr>]"
  by (simp add: run_eval fs_eval sample_eval swig_eval sample_windows_fs_def)

text \<open>
  Claim C8. \<open>use_debug_configuration\<close> changes the compiler and the linker arguments
  of the profile and no other field. On Windows it appends \<open>/Od\<close>, \<open>/Zi\<close> to the
  compiler arguments and \<open>/DEBUG\<close> to the linker arguments. On a profile that
  \<open>BuildSupportLinux.__init__\<close> has built it removes \<open>-O3\<close> and \<open>-g0\<close> from the
  compiler arguments and \<open>-g0\<close> from the linker arguments, keeps the rest in order,
  and appends \<open>-O0\<close>, \<open>-g3\<close> and \<open>-g3\<close>. In a run with the debug flag the debug
  configuration is the first step; every extension description of the run carries
  the changed arguments, and every call of \<open>setup\<close> the version with \<open>_dbg\<close>
  appended. The one run with the debug flag that has no first step is the run that
  \<open>get_git_version\<close> ends with an exception, before the flag is looked at: it has no
  step at all.
\<close>

theorem debug_configuration:
  "use_debug_configuration bs =
     bs\<lparr>ExtraCompileArgs := ExtraCompileArgs (use_debug_configuration bs),
        ExtraLinkArgs := ExtraLinkArgs (use_debug_configuration bs)\<rparr> \<and>
   (platform_class bs = BuildSupportWindows \<longrightarrow>
      ExtraCompileArgs (use_debug_configuration bs) = ExtraCompileArgs bs @ [''/Od'', ''/Zi''] \<and>
      ExtraLinkArgs (use_debug_configuration bs) = ExtraLinkArgs bs @ [''/DEBUG'']) \<and>
   (BuildSupportLinux_init h cl = (Inr bsl, cl') \<longrightarrow>
      ExtraCompileArgs (use_debug_configuration bsl)
        = filter (\<lambda>x. x \<noteq> ''-O3'' \<and> x \<noteq> ''-g0'') (ExtraCompileArgs bsl) @ [''-O0'', ''-g3''] \<and>
      ExtraLinkArgs (use_debug_configuration bsl)
        = filter (\<lambda>x. x \<noteq> ''-g0'') (ExtraLinkArgs bsl) @ [''-g3'']) \<and>
   (make h2 [] = (Inr (Some bs0), cl2) \<and> pp_debug a \<longrightarrow>
      (case get_git_version
              (subprocess_check_output h2 [''git'', ''describe'', ''--tags'', ''--dirty''])
              (datetime_now h2) of
         Inl e \<Rightarrow> w_steps (snd (script h2 t a remainder packages f)) = []
       | Inr default_version \<Rightarrow>
           (\<exists>rest. w_steps (snd (script h2 t a remainder packages f))
                     = UseDebugConfiguration # rest) \<and>
           steps_use (ExtraCompileArgs (use_debug_configuration bs0))
             (ExtraLinkArgs (use_debug_configuration bs0))
             ((case pp_version a of None \<Rightarrow> default_version | Some v \<Rightarrow> v) @ ''_dbg'')
             (w_steps (snd (script h2 t a remainder packages f)))))"
proof (intro conjI impI)
  show "use_debug_configuration bs =
     bs\<lparr>ExtraCompileArgs := ExtraCompileArgs (use_debug_configuration bs),
        ExtraLinkArgs := ExtraLinkArgs (use_debug_configuration bs)\<rparr>"
    by (cases "platform_class bs") (simp_all add: use_debug_configuration_def)
next
  assume "platform_class bs = BuildSupportWindows"
  then show "ExtraCompileArgs (use_debug_configuration bs) = ExtraCompileArgs bs @ [''/Od'', ''/Zi'']"
    and "ExtraLinkArgs (use_debug_configuration bs) = ExtraLinkArgs bs @ [''/DEBUG'']"
    by (simp_all add: use_debug_configuration_def)
next
  assume a: "BuildSupportLinux_init h cl = (Inr bsl, cl')"
  from Linux_init_debug[OF a]
  show "ExtraCompileArgs (use_debug_configuration bsl)
        = filter (\<lambda>x. x \<noteq> ''-O3'' \<and> x \<noteq> ''-g0'') (ExtraCompileArgs bsl) @ [''-O0'', ''-g3'']"
    and "ExtraLinkArgs (use_debug_configuration bsl)
        = filter (\<lambda>x. x \<noteq> ''-g0'') (ExtraLinkArgs bsl) @ [''-g3'']"
    by simp_all
next
  let ?git = "[''git'', ''describe'', ''--tags'', ''--dirty'']"
  assume a: "make h2 [] = (Inr (Some bs0), cl2) \<and> pp_debug a"
  show "case get_git_version (subprocess_check_output h2 ?git) (datetime_now h2) of
         Inl e \<Rightarrow> w_steps (snd (script h2 t a remainder packages f)) = []
       | Inr default_version \<Rightarrow>
           (\<exists>rest. w_steps (snd (script h2 t a remainder packages f))
                     = UseDebugConfiguration # rest) \<and>
           steps_use (ExtraCompileArgs (use_debug_configuration bs0))
             (ExtraLinkArgs (use_debug_configuration bs0))
             ((case pp_version a of None \<Rightarrow> default_version | Some v \<Rightarrow> v) @ ''_dbg'')
             (w_steps (snd (script h2 t a remainder packages f)))"
  proof (cases "get_git_version (subprocess_check_output h2 ?git) (datetime_now h2)")
    case (Inl e)
    from a version_raises_run[of h2 bs0 cl2 e t a remainder packages f] Inl
    show ?thesis by simp
  next
    case (Inr default_version)
    from a debug_run[of h2 bs0 cl2 a default_version t remainder packages f] Inr
    show ?thesis by simp
  qed
qed

theorem debug_configuration_witness:
  "platform_class sample_windows_profile = BuildSupportWindows \<and>
   BuildSupportLinux_init sample_linux_host [] =
     (Inr sample_linux_profile, [[''/usr/bin/swig'', ''-version'']]) \<and>
   make sample_windows_host [] =
     (Inr (Some sample_windows_profile), [[''C:/swig/swig.exe'', ''-version'']]) \<and>
   pp_debug sample_args \<and>
   get_git_version
     (subprocess_check_output sample_windows_host [''git'', ''describe'', ''--tags'', ''--dirty''])
     (datetime_now sample_windows_host) = Inr ''1.2.3.dev14'' \<and>
   ExtraCompileArgs (use_debug_configuration sample_windows_profile)
     = [''/Gy'', ''/GL'', ''/EHsc'', ''/IC:/sdk/include'', ''/permissive-'', ''/Od'', ''/Zi''] \<and>
   ExtraLinkArgs (use_debug_configuration sample_windows_profile)
     = [''/OPT:REF'', ''/OPT:ICF'', ''/LTCG'', ''/DEBUG''] \<and>
   ExtraCompileArgs (use_debug_configuration sample_linux_profile)
     = [''-Wno-unknown-pragmas'', ''-fPIC'', ''-Wall'', ''-Wno-switch'', ''-I/opt/sdk'',
        ''-I/opt/sdk/include'', ''-O0'', ''-g3''] \<and>
   ExtraLinkArgs (use_debug_configuration sample_linux_profile)
     = [''-Wl,--enable-new-dtags'', ''-Wl,-rpath,$ORIGIN'', ''-L/opt/sdk/lib/x64'', ''-lrt'',
        ''-lusb-1.0'', ''-lfa_genapi_c'', ''-lfacamera_c'', ''-limage'', ''-lGCBase_gcc48_v3_4'',
        ''-g3''] \<and>
   w_steps (snd (script sample_windows_host sample_tools sample_args [] RuntimeDefaultDeploy
                   sample_windows_fs))
     = [UseDebugConfiguration, Clean ''keep'', CallSwig, CopyRuntime,
        MakeExtension
          \<lparr>sources = [''C:/work/./generated/FAI_python_wrap.c''],
           library_dirs = [''C:/sdk/lib/x64''], libraries = [''FAI_c''],
           extra_compile_args = [''/Gy'', ''/GL'', ''/EHsc'', ''/IC:/sdk/include'', ''/permissive-'',
                                 ''/Od'', ''/Zi''],
           extra_link_args = [''/OPT:REF'', ''/OPT:ICF'', ''/LTCG'', ''/DEBUG'']\<rparr>,
        Setup
          \<lparr>setup_version = ''1.2.3.dev14_dbg'',
           ext_modules =
             [\<lparr>sources = [''C:/work/./generated/FAI_python_wrap.c''],
               library_dirs = [''C:/sdk/lib/x64''], libraries = [''FAI_c''],
               extra_compile_args = [''/Gy'', ''/GL'', ''/EHsc'', ''/IC:/sdk/include'',
                                     ''/permissive-'', ''/Od'', ''/Zi''],
               extra_link_args = [''/OPT:REF'', ''/OPT:ICF'', ''/LTCG'', ''/DEBUG'']\<rparr>],
           package_data = [''*.dll'', ''*.zip'', ''*.so'', ''*.so.*'']\<rparr>] \<and>
   steps_use (ExtraCompileArgs (use_debug_configuration sample_windows_profile))
     (ExtraLinkArgs (use_debug_configuration sample_windows_profile))
     ''1.2.3.dev14_dbg''
     (w_steps (snd (script sample_windows_host sample_tools sample_args [] RuntimeDefaultDeploy
                      sample_windows_fs)))"
proof -
  have k: "platform_class sample_windows_profile = BuildSupportWindows" "pp_debug sample_args"
    "pp_version sample_args = None"
    by (simp_all add: sample_windows_profile_def sample_args_def)
  have g: "get_git_version
     (subprocess_check_output sample_windows_host [''git'', ''describe'', ''--tags'', ''--dirty''])
     (datetime_now sample_windows_host) = Inr ''1.2.3.dev14''"
    by (simp add: sample_eval rx_eval)
  note t = debug_configuration[of sample_windows_profile sample_linux_host "[]" sample_linux_profile
      "[[''/usr/bin/swig'', ''-version'']]" sample_windows_host sample_windows_profile
      "[[''C:/swig/swig.exe'', ''-version'']]" sample_args sample_tools "[]" RuntimeDefaultDeploy
      sample_windows_fs]
  have w: "ExtraCompileArgs sample_windows_profile
             = [''/Gy'', ''/GL'', ''/EHsc'', ''/IC:/sdk/include'', ''/permissive-'']"
    "ExtraLinkArgs sample_windows_profile = [''/OPT:REF'', ''/OPT:ICF'', ''/LTCG'']"
    by (simp_all add: sample_windows_profile_def Windows_ExtraCompileArgs_def
          Windows_ExtraLinkArgs_def)
  have l: "ExtraCompileArgs sample_linux_profile
             = [''-Wno-unknown-pragmas'', ''-fPIC'', ''-g0'', ''-Wall'', ''-O3'', ''-Wno-switch'',
                ''-I/opt/sdk'', ''-I/opt/sdk/include'']"
    "ExtraLinkArgs sample_linux_profile
             = [''-g0'', ''-Wl,--enable-new-dtags'', ''-Wl,-rpath,$ORIGIN'', ''-L/opt/sdk/lib/x64'',
                ''-lrt'', ''-lusb-1.0'', ''-lfa_genapi_c'', ''-lfacamera_c'', ''-limage'',
                ''-lGCBase_gcc48_v3_4'']"
    by (simp_all add: sample_linux_profile_def Linux_ExtraCompileArgs_def Linux_ExtraLinkArgs_def)
  from t k have t1:
    "ExtraCompileArgs (use_debug_configuration sample_windows_profile)
       = ExtraCompileArgs sample_windows_profile @ [''/Od'', ''/Zi'']"
    "ExtraLinkArgs (use_debug_configuration sample_windows_profile)
       = ExtraLinkArgs sample_windows_profile @ [''/DEBUG'']"
    by blast+
  from t sample_linux_init have t2:
    "ExtraCompileArgs (use_debug_configuration sample_linux_profile)
       = filter (\<lambda>x. x \<noteq> ''-O3'' \<and> x \<noteq> ''-g0'') (ExtraCompileArgs sample_linux_profile)
           @ [''-O0'', ''-g3'']"
    "ExtraLinkArgs (use_debug_configuration sample_linux_profile)
       = filter (\<lambda>x. x \<noteq> ''-g0'') (ExtraLinkArgs sample_linux_profile) @ [''-g3'']"
    by blast+
  from t k(2) sample_windows_make have
    "case get_git_version
            (subprocess_check_output sample_windows_host [''git'', ''describe'', ''--tags'', ''--dirty''])
            (datetime_now sample_windows_host) of
       Inl e \<Rightarrow> w_steps (snd (script sample_windows_host sample_tools sample_args []
                                 RuntimeDefaultDeploy sample_windows_fs)) = []
     | Inr default_version \<Rightarrow>
         (\<exists>rest. w_steps (snd (script sample_windows_host sample_tools sample_args []
                                  RuntimeDefaultDeploy sample_windows_fs))
                   = UseDebugConfiguration # rest) \<and>
         steps_use (ExtraCompileArgs (use_debug_configuration sample_windows_profile))
           (ExtraLinkArgs (use_debug_configuration sample_windows_profile))
           ((case pp_version sample_args of None \<Rightarrow> default_version | Some v \<Rightarrow> v) @ ''_dbg'')
           (w_steps (snd (script sample_windows_host sample_tools sample_args []
                            RuntimeDefaultDeploy sample_windows_fs)))"
    by blast
  then have t3:
    "steps_use (ExtraCompileArgs (use_debug_configuration sample_windows_profile))
       (ExtraLinkArgs (use_debug_configuration sample_windows_profile))
       ''1.2.3.dev14_dbg''
       (w_steps (snd (script sample_windows_host sample_tools sample_args [] RuntimeDefaultDeploy
                        sample_windows_fs)))"
    by (simp only: g k(3) option.case sum.case append.simps)
  have e: "ExtraCompileArgs (use_debug_configuration sample_windows_profile)
     = [''/Gy'', ''/GL'', ''/EHsc'', ''/IC:/sdk/include'', ''/permissive-'', ''/Od'', ''/Zi'']"
    "ExtraLinkArgs (use_debug_configuration sample_windows_profile)
     = [''/OPT:REF'', ''/OPT:ICF'', ''/LTCG'', ''/DEBUG'']"
    "ExtraCompileArgs (use_debug_configuration sample_linux_profile)
     = [''-Wno-unknown-pragmas'', ''-fPIC'', ''-Wall'', ''-Wno-switch'', ''-I/opt/sdk'',
        ''-I/opt/sdk/include'', ''-O0'', ''-g3'']"
    "ExtraLinkArgs (use_debug_configuration sample_linux_profile)
     = [''-Wl,--enable-new-dtags'', ''-Wl,-rpath,$ORIGIN'', ''-L/opt/sdk/lib/x64'', ''-lrt'',
        ''-lusb-1.0'', ''-lfa_genapi_c'', ''-lfacamera_c'', ''-limage'', ''-lGCBase_gcc48_v3_4'',
        ''-g3'']"
    using t1 t2 w l by simp_all
  show ?thesis
    by (intro conjI k(1) k(2) g sample_linux_init sample_windows_make sample_windows_steps e t3)
qed

end
